theory Spec2Isabelle
  imports Complex_Main
begin

section \<open>Strings\<close>

text \<open>
  JavaScript strings are modelled as \<open>string\<close>, that is, over the code units below 256.
  On these \<open>toLowerCase\<close> changes the ASCII capitals and maps every other code unit to a
  code unit outside \<open>a-z0-9\<close>, which is all that the functions below observe.
\<close>

definition toLowerCase_char :: "char \<Rightarrow> char" where
  "toLowerCase_char c =
     (case map_of (zip ''ABCDEFGHIJKLMNOPQRSTUVWXYZ'' ''abcdefghijklmnopqrstuvwxyz'') c of
        Some l \<Rightarrow> l
      | None \<Rightarrow> c)"

definition toLowerCase :: "string \<Rightarrow> string" where
  "toLowerCase s = map toLowerCase_char s"

text \<open>\<open>String.prototype.includes\<close>: the argument occurs as a contiguous substring.\<close>

fun starts_with :: "string \<Rightarrow> string \<Rightarrow> bool" where
  "starts_with s [] = True"
| "starts_with [] (w # ws) = False"
| "starts_with (c # cs) (w # ws) = (c = w \<and> starts_with cs ws)"

fun includes_str :: "string \<Rightarrow> string \<Rightarrow> bool" where
  "includes_str [] w = (w = [])"
| "includes_str (c # cs) w = (starts_with (c # cs) w \<or> includes_str cs w)"

text \<open>The decimal numeral of a number, as a template literal prints it.\<close>

definition digit_char :: "nat \<Rightarrow> char" where
  "digit_char d = ''0123456789'' ! d"

function string_of_nat :: "nat \<Rightarrow> string" where
  "string_of_nat n =
     (if n < 10 then [digit_char n] else string_of_nat (n div 10) @ [digit_char (n mod 10)])"
  by pat_completeness auto
termination
  by (relation "measure (\<lambda>n. n)") auto

declare string_of_nat.simps [simp del]

section \<open>Constants of the service\<close>

definition NODE_TYPES :: "string list" where
  "NODE_TYPES = [''start'', ''process'', ''decision'', ''data'', ''subprocess'', ''end'',
     ''actor'', ''document'']"

text \<open>\<open>HEX_COLOR_REGEX = /^#([0-9a-f]{6})$/i\<close>\<close>

definition is_hex_digit :: "char \<Rightarrow> bool" where
  "is_hex_digit c = (c \<in> set ''0123456789abcdefABCDEF'')"

definition HEX_COLOR_REGEX :: "string \<Rightarrow> bool" where
  "HEX_COLOR_REGEX s =
     (case s of
        [] \<Rightarrow> False
      | h # ds \<Rightarrow> h = CHR ''#'' \<and> length ds = 6 \<and> list_all is_hex_digit ds)"

record nodeColors =
  c_start :: string
  c_process :: string
  c_decision :: string
  c_data :: string
  c_subprocess :: string
  c_end :: string
  c_actor :: string
  c_document :: string

record palette =
  p_name :: string
  p_canvas :: string
  p_panel :: string
  p_text :: string
  p_mutedText :: string
  p_edge :: string
  p_accent :: string
  p_nodeColors :: nodeColors

definition DEFAULT_PALETTE :: palette where
  "DEFAULT_PALETTE =
     \<lparr>p_name = ''Clean Blueprint'', p_canvas = ''#eef3ff'', p_panel = ''#ffffff'',
      p_text = ''#1e2b43'', p_mutedText = ''#5d6e90'', p_edge = ''#48658f'',
      p_accent = ''#0f8b8d'',
      p_nodeColors =
        \<lparr>c_start = ''#2a9d8f'', c_process = ''#4f7cff'', c_decision = ''#f4a261'',
         c_data = ''#e76f51'', c_subprocess = ''#9b7de6'', c_end = ''#e63973'',
         c_actor = ''#22b8b0'', c_document = ''#e9c46a''\<rparr>\<rparr>"

definition clinical_palette :: palette where
  "clinical_palette =
     \<lparr>p_name = ''Clinical Signal'', p_canvas = ''#edf8fb'', p_panel = ''#ffffff'',
      p_text = ''#1b2b40'', p_mutedText = ''#5b6f87'', p_edge = ''#2c728f'',
      p_accent = ''#168aad'',
      p_nodeColors =
        \<lparr>c_start = ''#2a9d8f'', c_process = ''#3a86ff'', c_decision = ''#ff9f1c'',
         c_data = ''#f28482'', c_subprocess = ''#6f5cc2'', c_end = ''#d7263d'',
         c_actor = ''#00a896'', c_document = ''#e9c46a''\<rparr>\<rparr>"

definition executive_palette :: palette where
  "executive_palette =
     \<lparr>p_name = ''Executive Deck'', p_canvas = ''#f4f6fb'', p_panel = ''#ffffff'',
      p_text = ''#1f2a3d'', p_mutedText = ''#60708d'', p_edge = ''#4f5d95'',
      p_accent = ''#1f7a8c'',
      p_nodeColors =
        \<lparr>c_start = ''#2e8b57'', c_process = ''#2d6cdf'', c_decision = ''#f4a259'',
         c_data = ''#b56576'', c_subprocess = ''#7a5ad9'', c_end = ''#d1495b'',
         c_actor = ''#1f9e89'', c_document = ''#d4a72c''\<rparr>\<rparr>"

definition classroom_palette :: palette where
  "classroom_palette =
     \<lparr>p_name = ''Classroom Focus'', p_canvas = ''#f9f6ef'', p_panel = ''#fffefb'',
      p_text = ''#2c2a3a'', p_mutedText = ''#69657e'', p_edge = ''#5f6f9c'',
      p_accent = ''#2a9d8f'',
      p_nodeColors =
        \<lparr>c_start = ''#2b9348'', c_process = ''#4361ee'', c_decision = ''#ff8800'',
         c_data = ''#ef476f'', c_subprocess = ''#8e7dbe'', c_end = ''#d90429'',
         c_actor = ''#1ea896'', c_document = ''#e9c46a''\<rparr>\<rparr>"

definition DOMAIN_PALETTES :: "(string list \<times> palette) list" where
  "DOMAIN_PALETTES =
     [([''health'', ''medical'', ''hospital'', ''patient'', ''triage''], clinical_palette),
      ([''finance'', ''bank'', ''business'', ''sales'', ''customer'', ''onboarding''],
       executive_palette),
      ([''education'', ''student'', ''classroom'', ''learning'', ''school''],
       classroom_palette)]"

section \<open>The palette schema\<close>

text \<open>
  A palette candidate is a JSON object: every field of \<open>paletteSchema\<close> has a default and
  may be absent (\<open>None\<close>), while the \<open>nodeColors\<close> object itself is required. A field of
  another JSON type than string fails the schema as a string outside the pattern does.
\<close>

record raw_nodeColors =
  rc_start :: "string option"
  rc_process :: "string option"
  rc_decision :: "string option"
  rc_data :: "string option"
  rc_subprocess :: "string option"
  rc_end :: "string option"
  rc_actor :: "string option"
  rc_document :: "string option"

record raw_palette =
  rp_name :: "string option"
  rp_canvas :: "string option"
  rp_panel :: "string option"
  rp_text :: "string option"
  rp_mutedText :: "string option"
  rp_edge :: "string option"
  rp_accent :: "string option"
  rp_nodeColors :: "raw_nodeColors option"

text \<open>\<open>z.string().regex(HEX_COLOR_REGEX).default(d)\<close>\<close>

definition colorField :: "string \<Rightarrow> string option \<Rightarrow> string option" where
  "colorField d v =
     (case v of
        None \<Rightarrow> Some d
      | Some s \<Rightarrow> if HEX_COLOR_REGEX s then Some s else None)"

text \<open>\<open>z.string().min(2).max(80).default(d)\<close>\<close>

definition nameField :: "string \<Rightarrow> string option \<Rightarrow> string option" where
  "nameField d v =
     (case v of
        None \<Rightarrow> Some d
      | Some s \<Rightarrow> if 2 \<le> length s \<and> length s \<le> 80 then Some s else None)"

definition nodeColorsSchema :: "raw_nodeColors \<Rightarrow> nodeColors option" where
  "nodeColorsSchema r =
     (case colorField (c_start (p_nodeColors DEFAULT_PALETTE)) (rc_start r) of None \<Rightarrow> None
      | Some a \<Rightarrow>
     (case colorField (c_process (p_nodeColors DEFAULT_PALETTE)) (rc_process r) of None \<Rightarrow> None
      | Some b \<Rightarrow>
     (case colorField (c_decision (p_nodeColors DEFAULT_PALETTE)) (rc_decision r) of None \<Rightarrow> None
      | Some c \<Rightarrow>
     (case colorField (c_data (p_nodeColors DEFAULT_PALETTE)) (rc_data r) of None \<Rightarrow> None
      | Some d \<Rightarrow>
     (case colorField (c_subprocess (p_nodeColors DEFAULT_PALETTE)) (rc_subprocess r) of None \<Rightarrow> None
      | Some e \<Rightarrow>
     (case colorField (c_end (p_nodeColors DEFAULT_PALETTE)) (rc_end r) of None \<Rightarrow> None
      | Some f \<Rightarrow>
     (case colorField (c_actor (p_nodeColors DEFAULT_PALETTE)) (rc_actor r) of None \<Rightarrow> None
      | Some g \<Rightarrow>
     (case colorField (c_document (p_nodeColors DEFAULT_PALETTE)) (rc_document r) of None \<Rightarrow> None
      | Some h \<Rightarrow>
        Some \<lparr>c_start = a, c_process = b, c_decision = c, c_data = d, c_subprocess = e,
              c_end = f, c_actor = g, c_document = h\<rparr>))))))))"

text \<open>\<open>paletteSchema.safeParse\<close>: \<open>None\<close> is \<open>success = false\<close>.\<close>

definition paletteSchema :: "raw_palette \<Rightarrow> palette option" where
  "paletteSchema r =
     (case nameField (p_name DEFAULT_PALETTE) (rp_name r) of None \<Rightarrow> None
      | Some n \<Rightarrow>
     (case colorField (p_canvas DEFAULT_PALETTE) (rp_canvas r) of None \<Rightarrow> None
      | Some a \<Rightarrow>
     (case colorField (p_panel DEFAULT_PALETTE) (rp_panel r) of None \<Rightarrow> None
      | Some b \<Rightarrow>
     (case colorField (p_text DEFAULT_PALETTE) (rp_text r) of None \<Rightarrow> None
      | Some c \<Rightarrow>
     (case colorField (p_mutedText DEFAULT_PALETTE) (rp_mutedText r) of None \<Rightarrow> None
      | Some d \<Rightarrow>
     (case colorField (p_edge DEFAULT_PALETTE) (rp_edge r) of None \<Rightarrow> None
      | Some e \<Rightarrow>
     (case colorField (p_accent DEFAULT_PALETTE) (rp_accent r) of None \<Rightarrow> None
      | Some f \<Rightarrow>
     (case rp_nodeColors r of None \<Rightarrow> None
      | Some rc \<Rightarrow>
     (case nodeColorsSchema rc of None \<Rightarrow> None
      | Some nc \<Rightarrow>
        Some \<lparr>p_name = n, p_canvas = a, p_panel = b, p_text = c, p_mutedText = d,
              p_edge = e, p_accent = f, p_nodeColors = nc\<rparr>)))))))))"

text \<open>The fourteen colour fields that a candidate carries.\<close>

definition colorFields :: "raw_palette \<Rightarrow> string option list" where
  "colorFields r =
     [rp_canvas r, rp_panel r, rp_text r, rp_mutedText r, rp_edge r, rp_accent r]
     @ (case rp_nodeColors r of
          None \<Rightarrow> []
        | Some c \<Rightarrow>
            [rc_start c, rc_process c, rc_decision c, rc_data c, rc_subprocess c,
             rc_end c, rc_actor c, rc_document c])"

text \<open>A palette object of the program, seen as a candidate for the schema.\<close>

definition as_candidate :: "palette \<Rightarrow> raw_palette" where
  "as_candidate p =
     \<lparr>rp_name = Some (p_name p), rp_canvas = Some (p_canvas p), rp_panel = Some (p_panel p),
      rp_text = Some (p_text p), rp_mutedText = Some (p_mutedText p),
      rp_edge = Some (p_edge p), rp_accent = Some (p_accent p),
      rp_nodeColors = Some
        \<lparr>rc_start = Some (c_start (p_nodeColors p)),
         rc_process = Some (c_process (p_nodeColors p)),
         rc_decision = Some (c_decision (p_nodeColors p)),
         rc_data = Some (c_data (p_nodeColors p)),
         rc_subprocess = Some (c_subprocess (p_nodeColors p)),
         rc_end = Some (c_end (p_nodeColors p)),
         rc_actor = Some (c_actor (p_nodeColors p)),
         rc_document = Some (c_document (p_nodeColors p))\<rparr>\<rparr>"

text \<open>
  \<open>normalizePalette(rawPalette, fallbackPalette = DEFAULT_PALETTE)\<close>: \<open>None\<close> is an absent
  (falsy) argument. The first present one of the two arguments and the default is the only
  candidate that is parsed; when it fails, the default palette is parsed and returned.
\<close>

definition normalizePalette :: "raw_palette option \<Rightarrow> raw_palette option \<Rightarrow> palette" where
  "normalizePalette rawPalette fallbackPalette =
     (let attemptedPalette =
            (case rawPalette of
               Some r \<Rightarrow> r
             | None \<Rightarrow>
                 (case fallbackPalette of
                    Some f \<Rightarrow> f
                  | None \<Rightarrow> as_candidate DEFAULT_PALETTE))
      in case paletteSchema attemptedPalette of
           Some parsed \<Rightarrow> parsed
         | None \<Rightarrow>
             (case paletteSchema (as_candidate DEFAULT_PALETTE) of
                Some fallback \<Rightarrow> fallback
              | None \<Rightarrow> DEFAULT_PALETTE))"

definition pickPaletteFromPrompt :: "string \<Rightarrow> palette" where
  "pickPaletteFromPrompt prompt =
     (let lowerPrompt = toLowerCase prompt
      in case find (\<lambda>entry. list_ex (\<lambda>word. includes_str lowerPrompt word) (fst entry))
                DOMAIN_PALETTES of
           Some entry \<Rightarrow> snd entry
         | None \<Rightarrow> DEFAULT_PALETTE)"

section \<open>The identifier sanitizer\<close>

definition is_id_char :: "char \<Rightarrow> bool" where
  "is_id_char c = (c \<in> set ''abcdefghijklmnopqrstuvwxyz0123456789'')"

text \<open>\<open>.replace(/[^a-z0-9]+/g, "-")\<close>: every maximal run of other characters becomes one hyphen.\<close>

function replace_runs :: "string \<Rightarrow> string" where
  "replace_runs [] = []"
| "replace_runs (c # cs) =
     (if is_id_char c then c # replace_runs cs
      else CHR ''-'' # replace_runs (dropWhile (\<lambda>x. \<not> is_id_char x) cs))"
  by pat_completeness auto
termination
  by (relation "measure length") (auto simp: length_dropWhile_le less_Suc_eq_le)

text \<open>\<open>.replace(/^-+|-+$/g, "")\<close>\<close>

definition trim_hyphens :: "string \<Rightarrow> string" where
  "trim_hyphens s =
     rev (dropWhile (\<lambda>x. x = CHR ''-'') (rev (dropWhile (\<lambda>x. x = CHR ''-'') s)))"

definition sanitizeId :: "string \<Rightarrow> string \<Rightarrow> string" where
  "sanitizeId v fallback =
     (let safe = take 50 (trim_hyphens (replace_runs (toLowerCase v)))
      in if safe = [] then fallback else safe)"

section \<open>The flowchart schema\<close>

text \<open>
  A raw document is the JSON value handed to \<open>flowchartSchema.parse\<close>, with the JSON types
  the schema asks for: a field that may be left out is an option, and \<open>type\<close> is any string.
  A value of another shape is refused by the schema like one that breaks a bound.
\<close>

record raw_node =
  rn_id :: string
  rn_label :: string
  rn_type :: string
  rn_details :: "string option"
  rn_notes :: "string option"

record raw_edge =
  re_id :: "string option"
  re_source :: string
  re_target :: string
  re_label :: "string option"
  re_condition :: "string option"

record raw_flowchart =
  rf_title :: string
  rf_summary :: string
  rf_rationale :: string
  rf_suggestions :: "string list option"
  rf_nodes :: "raw_node list"
  rf_edges :: "raw_edge list"
  rf_palette :: "raw_palette option"

record node =
  n_id :: string
  n_label :: string
  n_type :: string
  n_details :: string
  n_notes :: string

text \<open>An edge as the schema returns it: the \<open>id\<close> is still optional.\<close>

record parsed_edge =
  pe_id :: "string option"
  pe_source :: string
  pe_target :: string
  pe_label :: string
  pe_condition :: string

record edge =
  e_id :: string
  e_source :: string
  e_target :: string
  e_label :: string
  e_condition :: string

record parsed_flowchart =
  pf_title :: string
  pf_summary :: string
  pf_rationale :: string
  pf_suggestions :: "string list"
  pf_nodes :: "node list"
  pf_edges :: "parsed_edge list"
  pf_palette :: "palette option"

record flowchart =
  title :: string
  summary :: string
  rationale :: string
  suggestions :: "string list"
  palette :: palette
  nodes :: "node list"
  edges :: "edge list"
  sourcePrompt :: string

text \<open>What a function throws: a \<open>ZodError\<close>, another \<open>Error\<close> with its message, or a value
  that is no \<open>Error\<close>.\<close>

datatype thrown = ZodError | Error string | NonError

text \<open>\<open>z.string().max(n).optional().default("")\<close>\<close>

definition optString :: "nat \<Rightarrow> string option \<Rightarrow> string option" where
  "optString n v =
     (case v of
        None \<Rightarrow> Some []
      | Some s \<Rightarrow> if length s \<le> n then Some s else None)"

definition nodeSchema :: "raw_node \<Rightarrow> node option" where
  "nodeSchema r =
     (if 1 \<le> length (rn_id r) \<and> length (rn_id r) \<le> 60 \<and>
         1 \<le> length (rn_label r) \<and> length (rn_label r) \<le> 120 \<and>
         rn_type r \<in> set NODE_TYPES
      then (case optString 350 (rn_details r) of None \<Rightarrow> None
            | Some d \<Rightarrow>
           (case optString 220 (rn_notes r) of None \<Rightarrow> None
            | Some t \<Rightarrow>
              Some \<lparr>n_id = rn_id r, n_label = rn_label r, n_type = rn_type r,
                    n_details = d, n_notes = t\<rparr>))
      else None)"

definition edgeSchema :: "raw_edge \<Rightarrow> parsed_edge option" where
  "edgeSchema r =
     (if (case re_id r of None \<Rightarrow> True | Some i \<Rightarrow> length i \<le> 80) \<and>
         1 \<le> length (re_source r) \<and> length (re_source r) \<le> 60 \<and>
         1 \<le> length (re_target r) \<and> length (re_target r) \<le> 60
      then (case optString 120 (re_label r) of None \<Rightarrow> None
            | Some l \<Rightarrow>
           (case optString 120 (re_condition r) of None \<Rightarrow> None
            | Some c \<Rightarrow>
              Some \<lparr>pe_id = re_id r, pe_source = re_source r, pe_target = re_target r,
                    pe_label = l, pe_condition = c\<rparr>))
      else None)"

text \<open>An array schema: every element parses, or the array is refused.\<close>

fun parse_all :: "('a \<Rightarrow> 'b option) \<Rightarrow> 'a list \<Rightarrow> 'b list option" where
  "parse_all f [] = Some []"
| "parse_all f (x # xs) =
     (case f x of None \<Rightarrow> None
      | Some y \<Rightarrow> (case parse_all f xs of None \<Rightarrow> None | Some ys \<Rightarrow> Some (y # ys)))"

text \<open>\<open>z.array(z.string().min(2).max(160)).max(8).default([])\<close>\<close>

definition suggestionsSchema :: "string list option \<Rightarrow> string list option" where
  "suggestionsSchema v =
     (case v of
        None \<Rightarrow> Some []
      | Some ss \<Rightarrow>
          if length ss \<le> 8 \<and> list_all (\<lambda>s. 2 \<le> length s \<and> length s \<le> 160) ss
          then Some ss else None)"

text \<open>\<open>z.array(...).min(2).max(35)\<close> of nodes and \<open>z.array(...).max(90)\<close> of edges.\<close>

definition nodesSchema :: "raw_node list \<Rightarrow> node list option" where
  "nodesSchema rs =
     (if 2 \<le> length rs \<and> length rs \<le> 35 then parse_all nodeSchema rs else None)"

definition edgesSchema :: "raw_edge list \<Rightarrow> parsed_edge list option" where
  "edgesSchema rs = (if length rs \<le> 90 then parse_all edgeSchema rs else None)"

text \<open>\<open>paletteSchema.optional()\<close>: the outer \<open>None\<close> is a refusal, \<open>Some None\<close> an absent palette.\<close>

definition optPaletteSchema :: "raw_palette option \<Rightarrow> palette option option" where
  "optPaletteSchema v =
     (case v of
        None \<Rightarrow> Some None
      | Some r \<Rightarrow> (case paletteSchema r of None \<Rightarrow> None | Some p \<Rightarrow> Some (Some p)))"

text \<open>\<open>flowchartSchema.parse\<close>: \<open>None\<close> is the thrown \<open>ZodError\<close>.\<close>

definition flowchartSchema :: "raw_flowchart \<Rightarrow> parsed_flowchart option" where
  "flowchartSchema r =
     (if 3 \<le> length (rf_title r) \<and> length (rf_title r) \<le> 140 \<and>
         10 \<le> length (rf_summary r) \<and> length (rf_summary r) \<le> 1000 \<and>
         10 \<le> length (rf_rationale r) \<and> length (rf_rationale r) \<le> 1200
      then (case suggestionsSchema (rf_suggestions r) of None \<Rightarrow> None
            | Some ss \<Rightarrow>
           (case nodesSchema (rf_nodes r) of None \<Rightarrow> None
            | Some ns \<Rightarrow>
           (case edgesSchema (rf_edges r) of None \<Rightarrow> None
            | Some es \<Rightarrow>
           (case optPaletteSchema (rf_palette r) of None \<Rightarrow> None
            | Some p \<Rightarrow>
              Some \<lparr>pf_title = rf_title r, pf_summary = rf_summary r,
                    pf_rationale = rf_rationale r, pf_suggestions = ss, pf_nodes = ns,
                    pf_edges = es, pf_palette = p\<rparr>))))
      else None)"

section \<open>The repair: \<open>normalizeFlowchart\<close>\<close>

text \<open>
  The \<open>map\<close> over the parsed nodes, with its index, the set \<open>usedIds\<close> and the map \<open>idMap\<close>
  threaded through: it returns the renamed nodes and the final \<open>idMap\<close>.
\<close>

fun assignIds ::
  "nat \<Rightarrow> string set \<Rightarrow> (string \<rightharpoonup> string) \<Rightarrow> node list \<Rightarrow> node list \<times> (string \<rightharpoonup> string)"
where
  "assignIds index usedIds idMap [] = ([], idMap)"
| "assignIds index usedIds idMap (n # ns) =
     (let candidate0 = sanitizeId (n_id n) (''node-'' @ string_of_nat (index + 1));
          candidate =
            (if candidate0 \<in> usedIds
             then candidate0 @ ''-'' @ string_of_nat (index + 1)
             else candidate0);
          rest = assignIds (index + 1) (insert candidate usedIds)
                   (idMap(n_id n \<mapsto> candidate)) ns
      in (n\<lparr>n_id := candidate\<rparr> # fst rest, snd rest))"

text \<open>The \<open>map\<close> over the parsed edges followed by \<open>filter(Boolean)\<close>; \<open>index\<close> counts every
  parsed edge, also the dropped ones. An empty \<open>id\<close> is falsy.\<close>

definition remapEndpoint :: "(string \<rightharpoonup> string) \<Rightarrow> string \<Rightarrow> string" where
  "remapEndpoint idMap v = (case idMap v of Some s \<Rightarrow> s | None \<Rightarrow> sanitizeId v [])"

fun remapEdges ::
  "(string \<rightharpoonup> string) \<Rightarrow> string set \<Rightarrow> nat \<Rightarrow> parsed_edge list \<Rightarrow> edge list"
where
  "remapEdges idMap validIdSet index [] = []"
| "remapEdges idMap validIdSet index (e # es) =
     (let source = remapEndpoint idMap (pe_source e);
          target = remapEndpoint idMap (pe_target e)
      in if source \<notin> validIdSet \<or> target \<notin> validIdSet
         then remapEdges idMap validIdSet (index + 1) es
         else
           \<lparr>e_id =
              (case pe_id e of
                 None \<Rightarrow>
                   ''edge-'' @ source @ ''-'' @ target @ ''-'' @ string_of_nat (index + 1)
               | Some i \<Rightarrow>
                   if i = [] then
                     ''edge-'' @ source @ ''-'' @ target @ ''-'' @ string_of_nat (index + 1)
                   else sanitizeId i (''edge-'' @ string_of_nat (index + 1))),
            e_source = source, e_target = target,
            e_label = pe_label e, e_condition = pe_condition e\<rparr>
           # remapEdges idMap validIdSet (index + 1) es)"

text \<open>Terminal enforcement, in the order of the source: first \<open>start\<close>, then \<open>end\<close>.\<close>

definition forceStart :: "node list \<Rightarrow> node list" where
  "forceStart ns =
     (if \<not> list_ex (\<lambda>n. n_type n = ''start'') ns
      then ns[0 := (ns ! 0)\<lparr>n_type := ''start''\<rparr>] else ns)"

definition forceEnd :: "node list \<Rightarrow> node list" where
  "forceEnd ns =
     (if \<not> list_ex (\<lambda>n. n_type n = ''end'') ns
      then ns[length ns - 1 := (ns ! (length ns - 1))\<lparr>n_type := ''end''\<rparr>] else ns)"

text \<open>The connectivity fallback: the loop \<open>for (i = 0; i < nodes.length - 1; i += 1)\<close>.\<close>

definition chainEdge :: "node list \<Rightarrow> nat \<Rightarrow> edge" where
  "chainEdge ns i =
     \<lparr>e_id = ''edge-'' @ n_id (ns ! i) @ ''-'' @ n_id (ns ! (i + 1)) @ ''-''
              @ string_of_nat (i + 1),
      e_source = n_id (ns ! i), e_target = n_id (ns ! (i + 1)),
      e_label = [], e_condition = []\<rparr>"

definition chainEdges :: "node list \<Rightarrow> edge list" where
  "chainEdges ns = map (chainEdge ns) [0 ..< length ns - 1]"

text \<open>The nodes after the renaming, and the edges after remapping and dropping.\<close>

definition renamedNodes :: "parsed_flowchart \<Rightarrow> node list" where
  "renamedNodes parsed = fst (assignIds 0 {} Map.empty (pf_nodes parsed))"

definition keptEdges :: "parsed_flowchart \<Rightarrow> edge list" where
  "keptEdges parsed =
     (let r = assignIds 0 {} Map.empty (pf_nodes parsed)
      in remapEdges (snd r) (set (map n_id (fst r))) 0 (pf_edges parsed))"

definition normalizeFlowchart ::
  "raw_flowchart \<Rightarrow> string \<Rightarrow> raw_palette option \<Rightarrow> thrown + flowchart"
where
  "normalizeFlowchart rawFlowchart prompt fallbackPalette =
     (case flowchartSchema rawFlowchart of
        None \<Rightarrow> Inl ZodError
      | Some parsed \<Rightarrow>
          (let pal = normalizePalette (map_option as_candidate (pf_palette parsed))
                       fallbackPalette;
               ns = forceEnd (forceStart (renamedNodes parsed));
               es = keptEdges parsed
           in Inr \<lparr>title = pf_title parsed, summary = pf_summary parsed,
                   rationale = pf_rationale parsed, suggestions = pf_suggestions parsed,
                   palette = pal, nodes = ns,
                   edges = (if es = [] then chainEdges ns else es),
                   sourcePrompt = prompt\<rparr>))"

section \<open>The fallback documents\<close>

definition fallbackFlowchart :: "string \<Rightarrow> string \<Rightarrow> string \<Rightarrow> flowchart" where
  "fallbackFlowchart prompt detailLevel audience =
     (let shortPrompt = (if length prompt > 120 then take 117 prompt @ ''...'' else prompt)
      in \<lparr>title = ''Fallback Flowchart'',
          summary = ''This fallback diagram was generated because the model response was incomplete.''
            @ '' '' @ ''It provides a safe baseline flow that you can edit directly in React Flow.'',
          rationale = ''Fallback logic keeps the system usable even when model output is malformed, while preserving explainability-first structure.'',
          suggestions =
            [''Use precise domain language in your prompt.'',
             ''Specify target audience and depth.'',
             ''Mention decision branches explicitly.''],
          palette = pickPaletteFromPrompt prompt,
          nodes =
            [\<lparr>n_id = ''problem-definition'', n_label = ''Define Problem'', n_type = ''start'',
               n_details = shortPrompt,
               n_notes = (if audience \<noteq> [] then ''Audience: '' @ audience else [])\<rparr>,
             \<lparr>n_id = ''requirements'', n_label = ''Extract Requirements'', n_type = ''process'',
               n_details = ''Identify goals, constraints, and success metrics.'',
               n_notes = ''Detail level: '' @ detailLevel\<rparr>,
             \<lparr>n_id = ''modeling'', n_label = ''Model Diagram Logic'', n_type = ''subprocess'',
               n_details = ''Draft node semantics, decision points, and transitions.'',
               n_notes = ''Explainability and presentation clarity are prioritized.''\<rparr>,
             \<lparr>n_id = ''review'', n_label = ''Review & Iterate'', n_type = ''decision'',
               n_details = ''Check correctness, readability, and audience fit.'',
               n_notes = ''If no, refine structure. If yes, finalize.''\<rparr>,
             \<lparr>n_id = ''final-diagram'', n_label = ''Final Diagram'', n_type = ''end'',
               n_details = ''Interactive flowchart ready for slides and technical documentation.'',
               n_notes = []\<rparr>],
          edges =
            [\<lparr>e_id = ''edge-problem-requirements-1'', e_source = ''problem-definition'',
               e_target = ''requirements'', e_label = ''clarify goal'', e_condition = []\<rparr>,
             \<lparr>e_id = ''edge-requirements-modeling-2'', e_source = ''requirements'',
               e_target = ''modeling'', e_label = ''structure steps'', e_condition = []\<rparr>,
             \<lparr>e_id = ''edge-modeling-review-3'', e_source = ''modeling'',
               e_target = ''review'', e_label = ''validate'', e_condition = []\<rparr>,
             \<lparr>e_id = ''edge-review-modeling-4'', e_source = ''review'',
               e_target = ''modeling'', e_label = ''No'', e_condition = ''needs improvement''\<rparr>,
             \<lparr>e_id = ''edge-review-final-5'', e_source = ''review'',
               e_target = ''final-diagram'', e_label = ''Yes'', e_condition = ''ready''\<rparr>],
          sourcePrompt = prompt\<rparr>)"

definition refinedFallback :: "flowchart \<Rightarrow> string \<Rightarrow> flowchart" where
  "refinedFallback currentFlowchart followUpPrompt =
     currentFlowchart
       \<lparr>summary := summary currentFlowchart @ '' Refinement applied: '' @ followUpPrompt,
        rationale := ''Model refinement failed, so the system preserved the existing diagram with a traceable refinement note.'',
        suggestions := take 5 (suggestions currentFlowchart)
          @ [''Try a shorter follow-up prompt with one change request at a time.'']\<rparr>"

section \<open>Generation and refinement\<close>

text \<open>
  The text-completion call is outside the program. \<open>runModel\<close> enters the model as its
  outcome: it throws, or it returns the JSON value it parsed, \<open>Some\<close> document when the
  value has the JSON types of \<open>raw_flowchart\<close> and \<open>None\<close> for any other JSON value (which
  the schema then refuses). \<open>zodMessage\<close> is the message text of the \<open>ZodError\<close> that the
  schema throws at that value; \<open>apiKey\<close> is \<open>process.env.GROQ_API_KEY\<close>.
\<close>

definition errorMessage :: "string \<Rightarrow> thrown \<Rightarrow> string" where
  "errorMessage zodMessage e =
     (case e of
        ZodError \<Rightarrow> zodMessage
      | Error m \<Rightarrow> m
      | NonError \<Rightarrow> ''Unknown LLM error'')"

text \<open>\<open>getGroqClient\<close>: \<open>None\<close> is the thrown error, \<open>Some\<close> the client (its key).\<close>

definition getGroqClient :: "string option \<Rightarrow> thrown + string" where
  "getGroqClient apiKey =
     (case apiKey of
        None \<Rightarrow> Inl (Error ''Missing GROQ_API_KEY in environment.'')
      | Some k \<Rightarrow>
          if k = [] then Inl (Error ''Missing GROQ_API_KEY in environment.'') else Inr k)"

text \<open>The body of the \<open>try\<close> block of both entry points: \<open>runModel\<close>, then the repair.\<close>

definition modelThenNormalize ::
  "(thrown + raw_flowchart option) \<Rightarrow> string \<Rightarrow> raw_palette option \<Rightarrow> thrown + flowchart"
where
  "modelThenNormalize runModel prompt fallbackPalette =
     (case runModel of
        Inl e \<Rightarrow> Inl e
      | Inr None \<Rightarrow> Inl ZodError
      | Inr (Some parsed) \<Rightarrow> normalizeFlowchart parsed prompt fallbackPalette)"

definition generateFlowchartFromPrompt ::
  "string option \<Rightarrow> string \<Rightarrow> (thrown + raw_flowchart option) \<Rightarrow>
   string \<Rightarrow> string \<Rightarrow> string \<Rightarrow> thrown + flowchart"
where
  "generateFlowchartFromPrompt apiKey zodMessage runModel prompt detailLevel audience =
     (case getGroqClient apiKey of
        Inl e \<Rightarrow> Inl e
      | Inr groq \<Rightarrow>
          (let fallbackPalette = pickPaletteFromPrompt prompt
           in case modelThenNormalize runModel prompt (Some (as_candidate fallbackPalette)) of
                Inr doc \<Rightarrow> Inr doc
              | Inl e \<Rightarrow>
                  if includes_str (errorMessage zodMessage e) ''Missing GROQ_API_KEY''
                  then Inl e
                  else Inr (fallbackFlowchart prompt detailLevel audience)))"

text \<open>The input of a refinement, as \<open>refineInputSchema\<close> reads it.\<close>

record raw_refine_input =
  ri_title :: "string option"
  ri_summary :: "string option"
  ri_rationale :: "string option"
  ri_suggestions :: "string list option"
  ri_nodes :: "raw_node list"
  ri_edges :: "raw_edge list"
  ri_palette :: "raw_palette option"
  ri_sourcePrompt :: "string option"

record parsed_refine_input =
  pr_title :: string
  pr_summary :: string
  pr_rationale :: string
  pr_suggestions :: "string list"
  pr_nodes :: "node list"
  pr_edges :: "parsed_edge list"
  pr_palette :: "palette option"
  pr_sourcePrompt :: string

text \<open>\<open>z.string().max(n).optional().default(d)\<close>\<close>

definition optStringDefault :: "nat \<Rightarrow> string \<Rightarrow> string option \<Rightarrow> string option" where
  "optStringDefault n d v =
     (case v of
        None \<Rightarrow> Some d
      | Some s \<Rightarrow> if length s \<le> n then Some s else None)"

definition refineSuggestionsSchema :: "string list option \<Rightarrow> string list option" where
  "refineSuggestionsSchema v =
     (case v of
        None \<Rightarrow> Some []
      | Some ss \<Rightarrow>
          if length ss \<le> 8 \<and> list_all (\<lambda>s. 1 \<le> length s \<and> length s \<le> 160) ss
          then Some ss else None)"

definition refineInputSchema :: "raw_refine_input \<Rightarrow> parsed_refine_input option" where
  "refineInputSchema r =
     (case optStringDefault 140 ''Refined Flowchart'' (ri_title r) of None \<Rightarrow> None
      | Some t \<Rightarrow>
     (case optStringDefault 1000 ''Refined flowchart based on follow-up instructions.''
             (ri_summary r) of None \<Rightarrow> None
      | Some sm \<Rightarrow>
     (case optStringDefault 1200
             ''Refinement preserves structure and applies the requested update.''
             (ri_rationale r) of None \<Rightarrow> None
      | Some ra \<Rightarrow>
     (case refineSuggestionsSchema (ri_suggestions r) of None \<Rightarrow> None
      | Some ss \<Rightarrow>
     (case nodesSchema (ri_nodes r) of None \<Rightarrow> None
      | Some ns \<Rightarrow>
     (case edgesSchema (ri_edges r) of None \<Rightarrow> None
      | Some es \<Rightarrow>
     (case optPaletteSchema (ri_palette r) of None \<Rightarrow> None
      | Some p \<Rightarrow>
     (case optStringDefault 5000 [] (ri_sourcePrompt r) of None \<Rightarrow> None
      | Some sp \<Rightarrow>
        Some \<lparr>pr_title = t, pr_summary = sm, pr_rationale = ra, pr_suggestions = ss,
              pr_nodes = ns, pr_edges = es, pr_palette = p, pr_sourcePrompt = sp\<rparr>))))))))"

text \<open>\<open>String.prototype.trim\<close> on code units below 256.\<close>

definition is_space :: "char \<Rightarrow> bool" where
  "is_space c =
     (c \<in> set [CHR 0x09, CHR 0x0A, CHR 0x0B, CHR 0x0C, CHR 0x0D, CHR 0x20, CHR 0xA0])"

definition trim :: "string \<Rightarrow> string" where
  "trim s = rev (dropWhile is_space (rev (dropWhile is_space s)))"

text \<open>The object \<open>{...parsedCurrent, summary, rationale}\<close> handed to the repair, which
  parses it with \<open>flowchartSchema\<close> again.\<close>

definition node_as_raw :: "node \<Rightarrow> raw_node" where
  "node_as_raw n =
     \<lparr>rn_id = n_id n, rn_label = n_label n, rn_type = n_type n,
      rn_details = Some (n_details n), rn_notes = Some (n_notes n)\<rparr>"

definition edge_as_raw :: "parsed_edge \<Rightarrow> raw_edge" where
  "edge_as_raw e =
     \<lparr>re_id = pe_id e, re_source = pe_source e, re_target = pe_target e,
      re_label = Some (pe_label e), re_condition = Some (pe_condition e)\<rparr>"

definition safeCurrent :: "raw_refine_input \<Rightarrow> thrown + flowchart" where
  "safeCurrent currentFlowchart =
     (case refineInputSchema currentFlowchart of
        None \<Rightarrow> Inl ZodError
      | Some parsedCurrent \<Rightarrow>
          (let summary' =
                 (if length (trim (pr_summary parsedCurrent)) \<ge> 10
                  then pr_summary parsedCurrent
                  else ''Refined flowchart based on follow-up instructions.'');
               rationale' =
                 (if length (trim (pr_rationale parsedCurrent)) \<ge> 10
                  then pr_rationale parsedCurrent
                  else ''Refinement preserves structure and applies the requested update.'')
           in normalizeFlowchart
                \<lparr>rf_title = pr_title parsedCurrent, rf_summary = summary',
                 rf_rationale = rationale',
                 rf_suggestions = Some (pr_suggestions parsedCurrent),
                 rf_nodes = map node_as_raw (pr_nodes parsedCurrent),
                 rf_edges = map edge_as_raw (pr_edges parsedCurrent),
                 rf_palette = map_option as_candidate (pr_palette parsedCurrent)\<rparr>
                (pr_sourcePrompt parsedCurrent)
                (Some (as_candidate
                   (normalizePalette (map_option as_candidate (pr_palette parsedCurrent))
                      (Some (as_candidate DEFAULT_PALETTE)))))))"

definition refineFlowchartFromPrompt ::
  "string option \<Rightarrow> string \<Rightarrow> (thrown + raw_flowchart option) \<Rightarrow>
   raw_refine_input \<Rightarrow> string \<Rightarrow> thrown + flowchart"
where
  "refineFlowchartFromPrompt apiKey zodMessage runModel currentFlowchart followUpPrompt =
     (case safeCurrent currentFlowchart of
        Inl e \<Rightarrow> Inl e
      | Inr current \<Rightarrow>
          (case getGroqClient apiKey of
             Inl e \<Rightarrow> Inl e
           | Inr groq \<Rightarrow>
               (case modelThenNormalize runModel
                       (if sourcePrompt current \<noteq> [] then sourcePrompt current
                        else followUpPrompt)
                       (Some (as_candidate (palette current))) of
                  Inr doc \<Rightarrow> Inr doc
                | Inl e \<Rightarrow>
                    if includes_str (errorMessage zodMessage e) ''Missing GROQ_API_KEY''
                    then Inl e
                    else Inr (refinedFallback current followUpPrompt))))"

section \<open>Node sizes\<close>

record dimensions =
  width :: int
  height :: int

definition NODE_DIMENSIONS :: "(string \<times> dimensions) list" where
  "NODE_DIMENSIONS =
     [(''start'', \<lparr>width = 250, height = 130\<rparr>),
      (''process'', \<lparr>width = 250, height = 140\<rparr>),
      (''decision'', \<lparr>width = 240, height = 240\<rparr>),
      (''data'', \<lparr>width = 260, height = 150\<rparr>),
      (''subprocess'', \<lparr>width = 250, height = 150\<rparr>),
      (''end'', \<lparr>width = 250, height = 130\<rparr>),
      (''actor'', \<lparr>width = 250, height = 145\<rparr>),
      (''document'', \<lparr>width = 255, height = 155\<rparr>)]"

text \<open>
  The table is an object literal, so \<open>NODE_DIMENSIONS[kind]\<close> also finds the names that
  every object inherits from \<open>Object.prototype\<close>. What it finds there is a function or an
  object: it is truthy, and it has no \<open>width\<close> and no \<open>height\<close>.
\<close>

definition OBJECT_PROTOTYPE_KEYS :: "string list" where
  "OBJECT_PROTOTYPE_KEYS =
     [''constructor'', ''__defineGetter__'', ''__defineSetter__'', ''hasOwnProperty'',
      ''__lookupGetter__'', ''__lookupSetter__'', ''isPrototypeOf'',
      ''propertyIsEnumerable'', ''toString'', ''valueOf'', ''__proto__'',
      ''toLocaleString'']"

datatype table_value = Entry dimensions | Inherited

text \<open>\<open>NODE_DIMENSIONS[kind] || NODE_DIMENSIONS.process\<close>\<close>

definition getNodeDimensions :: "string \<Rightarrow> table_value" where
  "getNodeDimensions kind =
     (case map_of NODE_DIMENSIONS kind of
        Some d \<Rightarrow> Entry d
      | None \<Rightarrow>
          if kind \<in> set OBJECT_PROTOTYPE_KEYS then Inherited
          else Entry \<lparr>width = 250, height = 140\<rparr>)"

text \<open>The text fields of a node payload; \<open>None\<close> is an absent (falsy) field.\<close>

record payload =
  pl_label :: "string option"
  pl_details :: "string option"
  pl_notes :: "string option"

definition text_of :: "string option \<Rightarrow> string" where
  "text_of v = (case v of None \<Rightarrow> [] | Some s \<Rightarrow> s)"

text \<open>\<open>Math.ceil(s.length / d)\<close>: on a length and a positive divisor the rounded quotient
  has the ceiling of the exact one.\<close>

definition ceil_div :: "nat \<Rightarrow> int \<Rightarrow> int" where
  "ceil_div n d = (int n + d - 1) div d"

text \<open>
  \<open>estimateNodeDimensions\<close>. All numbers are integers far below \<open>2^53\<close>, where the arithmetic
  of JavaScript is exact. The result \<open>None\<close> is the object \<open>{width: NaN, height: NaN}\<close>: for an
  inherited base both sizes start as \<open>undefined\<close>, no branch on \<open>kind\<close> applies, the sum
  with \<open>undefined\<close> is \<open>NaN\<close> and so is \<open>Math.min\<close> of \<open>undefined\<close> or \<open>NaN\<close>.
\<close>

definition estimateNodeDimensions :: "string \<Rightarrow> payload \<Rightarrow> dimensions option" where
  "estimateNodeDimensions kind p =
     (case getNodeDimensions kind of
        Inherited \<Rightarrow> None
      | Entry base \<Rightarrow>
     (let labelLines = max 1 (ceil_div (length (text_of (pl_label p))) 24);
          detailLines = ceil_div (length (text_of (pl_details p))) 42;
          noteLines = ceil_div (length (text_of (pl_notes p))) 44;
          estimatedLines = labelLines + detailLines + noteLines;
          extraLines = max 0 (estimatedLines - 5);
          w0 = width base;
          h0 = height base + extraLines * 18;
          w1 = (if kind = ''decision'' then max w0 (280 + extraLines * 12) else w0);
          h1 = (if kind = ''decision'' then max h0 (280 + extraLines * 24) else h0);
          w2 = (if kind = ''data'' then max w1 (280 + max 0 (detailLines - 3) * 10) else w1);
          w3 = (if kind = ''actor'' then max w2 270 else w2);
          h3 = (if kind = ''actor'' then h1 + 8 else h1);
          w4 = (if kind = ''document'' then max w3 270 else w3);
          h4 = (if kind = ''document'' then h3 + 8 else h3)
      in Some \<lparr>width = min w4 420, height = min h4 560\<rparr>))"

section \<open>Numbers\<close>

text \<open>
  The numbers of JavaScript are the binary64 values of IEEE 754: the two infinities,
  \<open>NaN\<close>, and the finite values, which are modelled by the real they denote (the two zeros
  are one value; no operation below tells them apart). Every arithmetic operation
  computes the exact result and rounds it to the nearest binary64 value, ties to the even
  significand, and to an infinity from \<open>2^1024 - 2^970\<close> on.
\<close>

datatype number = Finite real | PosInfinity | NegInfinity | NaN

text \<open>The largest \<open>e\<close> with \<open>lo \<le> e < hi\<close> and \<open>2^e \<le> a\<close>, and \<open>lo\<close> if there is none.\<close>

function binade_search :: "int \<Rightarrow> int \<Rightarrow> real \<Rightarrow> int" where
  "binade_search lo hi a =
     (if hi - lo \<le> 1 then lo
      else (let mid = (lo + hi) div 2
            in if 2 powi mid \<le> a then binade_search mid hi a else binade_search lo mid a))"
  by pat_completeness auto
termination
  by (relation "measure (\<lambda>(lo, hi, a). nat (hi - lo))") auto

declare binade_search.simps [simp del]

text \<open>The exponent of the binade of a magnitude: from \<open>-1022\<close> (also for the subnormal
  values) to \<open>1023\<close>.\<close>

definition binade :: "real \<Rightarrow> int" where
  "binade a = binade_search (- 1022) 1024 a"

definition round_half_even :: "real \<Rightarrow> int" where
  "round_half_even q =
     (let f = \<lfloor>q\<rfloor>; d = q - of_int f
      in if d < 1 / 2 then f else if 1 / 2 < d then f + 1 else if even f then f else f + 1)"

text \<open>Rounding to 53 significant bits in the binade of \<open>x\<close>, with overflow to an infinity.\<close>

definition round64 :: "real \<Rightarrow> number" where
  "round64 x =
     (let u = 2 powi (binade \<bar>x\<bar> - 52);
          r = of_int (round_half_even (x / u)) * u
      in if 2 powi 1024 \<le> \<bar>r\<bar> then (if 0 < x then PosInfinity else NegInfinity)
         else Finite r)"



fun add_number :: "number \<Rightarrow> number \<Rightarrow> number" where
  "add_number (Finite a) (Finite b) = round64 (a + b)"
| "add_number NaN y = NaN"
| "add_number x NaN = NaN"
| "add_number PosInfinity NegInfinity = NaN"
| "add_number NegInfinity PosInfinity = NaN"
| "add_number PosInfinity y = PosInfinity"
| "add_number NegInfinity y = NegInfinity"
| "add_number (Finite a) PosInfinity = PosInfinity"
| "add_number (Finite a) NegInfinity = NegInfinity"

fun minus_number :: "number \<Rightarrow> number \<Rightarrow> number" where
  "minus_number (Finite a) (Finite b) = round64 (a - b)"
| "minus_number NaN y = NaN"
| "minus_number x NaN = NaN"
| "minus_number PosInfinity PosInfinity = NaN"
| "minus_number NegInfinity NegInfinity = NaN"
| "minus_number PosInfinity y = PosInfinity"
| "minus_number NegInfinity y = NegInfinity"
| "minus_number (Finite a) PosInfinity = NegInfinity"
| "minus_number (Finite a) NegInfinity = PosInfinity"

text \<open>The sign of a product with an infinity; a zero times an infinity is \<open>NaN\<close>.\<close>

definition signed_infinity :: "real \<Rightarrow> number" where
  "signed_infinity s = (if s = 0 then NaN else if 0 < s then PosInfinity else NegInfinity)"

fun times_number :: "number \<Rightarrow> number \<Rightarrow> number" where
  "times_number (Finite a) (Finite b) = round64 (a * b)"
| "times_number NaN y = NaN"
| "times_number x NaN = NaN"
| "times_number PosInfinity PosInfinity = PosInfinity"
| "times_number PosInfinity NegInfinity = NegInfinity"
| "times_number NegInfinity PosInfinity = NegInfinity"
| "times_number NegInfinity NegInfinity = PosInfinity"
| "times_number PosInfinity (Finite b) = signed_infinity b"
| "times_number NegInfinity (Finite b) = signed_infinity (- b)"
| "times_number (Finite a) PosInfinity = signed_infinity a"
| "times_number (Finite a) NegInfinity = signed_infinity (- a)"

text \<open>\<open>x / 2\<close>\<close>

fun half_number :: "number \<Rightarrow> number" where
  "half_number (Finite a) = round64 (a / 2)"
| "half_number x = x"

text \<open>\<open>Math.min\<close> and \<open>Math.max\<close> of two numbers: \<open>NaN\<close> if one of them is.\<close>

fun math_min :: "number \<Rightarrow> number \<Rightarrow> number" where
  "math_min NaN y = NaN"
| "math_min x NaN = NaN"
| "math_min NegInfinity y = NegInfinity"
| "math_min x NegInfinity = NegInfinity"
| "math_min PosInfinity y = y"
| "math_min x PosInfinity = x"
| "math_min (Finite a) (Finite b) = Finite (min a b)"

fun math_max :: "number \<Rightarrow> number \<Rightarrow> number" where
  "math_max NaN y = NaN"
| "math_max x NaN = NaN"
| "math_max PosInfinity y = PosInfinity"
| "math_max x PosInfinity = PosInfinity"
| "math_max NegInfinity y = y"
| "math_max x NegInfinity = x"
| "math_max (Finite a) (Finite b) = Finite (max a b)"

text \<open>\<open>x < y\<close>: false when one of them is \<open>NaN\<close>.\<close>

fun less_number :: "number \<Rightarrow> number \<Rightarrow> bool" where
  "less_number (Finite a) (Finite b) = (a < b)"
| "less_number NaN y = False"
| "less_number x NaN = False"
| "less_number x NegInfinity = False"
| "less_number PosInfinity y = False"
| "less_number NegInfinity y = True"
| "less_number (Finite a) PosInfinity = True"

text \<open>\<open>Number.isFinite\<close>\<close>

fun isFinite :: "number \<Rightarrow> bool" where
  "isFinite (Finite a) = True"
| "isFinite x = False"

text \<open>A size that may be \<open>undefined\<close> (\<open>None\<close>), as arithmetic reads it: \<open>undefined\<close> is \<open>NaN\<close>.\<close>

definition to_number :: "number option \<Rightarrow> number" where
  "to_number v = (case v of None \<Rightarrow> NaN | Some n \<Rightarrow> n)"

section \<open>Layout\<close>

text \<open>
  A configured size as a node carries it: a number, a string such as \<open>"120px"\<close>, or a value
  of another type together with the number that \<open>Number\<close> makes of it. An absent field,
  \<open>undefined\<close> and \<open>null\<close> are \<open>None\<close>.
\<close>

datatype jsvalue = JNumber number | JString string | JOther number

record size_fields =
  sz_width :: "jsvalue option"
  sz_height :: "jsvalue option"

record marker =
  m_type :: string
  m_color :: string

record layout_node =
  ln_id :: string
  ln_kind :: "string option"
  ln_data_size :: "size_fields option"
  ln_width :: "jsvalue option"
  ln_height :: "jsvalue option"
  ln_style :: "size_fields option"
  ln_sourcePosition :: "string option"
  ln_targetPosition :: "string option"
  ln_position :: "number \<times> number"

record layout_edge =
  le_id :: string
  le_source :: string
  le_target :: string
  le_markerEnd :: "marker option"

text \<open>\<open>value.replace("px", "")\<close> removes the first occurrence.\<close>

fun remove_px :: "string \<Rightarrow> string" where
  "remove_px [] = []"
| "remove_px (c # cs) =
     (if starts_with (c # cs) ''px'' then drop 2 (c # cs) else c # remove_px cs)"

text \<open>\<open>toNumber(value, fallback)\<close>: \<open>parseFloat\<close> is the built-in; the fallback may be
  \<open>undefined\<close>.\<close>

definition toNumber ::
  "(string \<Rightarrow> number) \<Rightarrow> jsvalue option \<Rightarrow> number option \<Rightarrow> number option"
where
  "toNumber parseFloat v fallback =
     (let numeric =
            (case v of
               Some (JString s) \<Rightarrow> parseFloat (remove_px s)
             | Some (JNumber n) \<Rightarrow> n
             | Some (JOther n) \<Rightarrow> n
             | None \<Rightarrow> NaN)
      in if \<not> isFinite numeric then fallback else Some numeric)"

text \<open>\<open>a ?? b\<close>\<close>

definition coalesce :: "'a option \<Rightarrow> 'a option \<Rightarrow> 'a option" where
  "coalesce a b = (case a of Some x \<Rightarrow> Some x | None \<Rightarrow> b)"

text \<open>\<open>dims.width\<close> and \<open>dims.height\<close> of what the table lookup returned.\<close>

definition dims_width :: "table_value \<Rightarrow> number option" where
  "dims_width t =
     (case t of Entry d \<Rightarrow> Some (Finite (of_int (width d))) | Inherited \<Rightarrow> None)"

definition dims_height :: "table_value \<Rightarrow> number option" where
  "dims_height t =
     (case t of Entry d \<Rightarrow> Some (Finite (of_int (height d))) | Inherited \<Rightarrow> None)"

definition getNodeSize ::
  "(string \<Rightarrow> number) \<Rightarrow> layout_node \<Rightarrow> number option \<times> number option"
where
  "getNodeSize parseFloat n =
     (let kind = (case ln_kind n of None \<Rightarrow> ''process''
                  | Some k \<Rightarrow> if k = [] then ''process'' else k);
          dims = getNodeDimensions kind;
          configuredWidth =
            coalesce (Option.bind (ln_data_size n) sz_width)
              (coalesce (ln_width n)
                 (coalesce (Option.bind (ln_style n) sz_width)
                    (map_option JNumber (dims_width dims))));
          configuredHeight =
            coalesce (Option.bind (ln_data_size n) sz_height)
              (coalesce (ln_height n)
                 (coalesce (Option.bind (ln_style n) sz_height)
                    (map_option JNumber (dims_height dims))))
      in (toNumber parseFloat configuredWidth (dims_width dims),
          toNumber parseFloat configuredHeight (dims_height dims)))"

definition shift_node :: "number \<Rightarrow> number \<Rightarrow> layout_node \<Rightarrow> layout_node" where
  "shift_node shiftX shiftY n =
     n\<lparr>ln_position :=
         (add_number (fst (ln_position n)) shiftX, add_number (snd (ln_position n)) shiftY)\<rparr>"

text \<open>\<open>normalizePositions(nodes, margin = 20)\<close>\<close>

definition normalizePositions :: "layout_node list \<Rightarrow> number \<Rightarrow> layout_node list" where
  "normalizePositions ns margin =
     (if ns = [] then ns
      else
        (let minX = fold (\<lambda>n m. math_min m (fst (ln_position n))) ns PosInfinity;
             minY = fold (\<lambda>n m. math_min m (snd (ln_position n))) ns PosInfinity;
             shiftX = (if less_number minX margin then minus_number margin minX else Finite 0);
             shiftY = (if less_number minY margin then minus_number margin minY else Finite 0)
         in if shiftX = Finite 0 \<and> shiftY = Finite 0 then ns
            else map (shift_node shiftX shiftY) ns))"

definition getBoundingArea :: "(string \<Rightarrow> number) \<Rightarrow> layout_node list \<Rightarrow> number" where
  "getBoundingArea parseFloat ns =
     (if ns = [] then PosInfinity
      else
        (let minX = fold (\<lambda>n m. math_min m (fst (ln_position n))) ns PosInfinity;
             minY = fold (\<lambda>n m. math_min m (snd (ln_position n))) ns PosInfinity;
             maxX = fold (\<lambda>n m. math_max m
                            (add_number (fst (ln_position n))
                               (to_number (fst (getNodeSize parseFloat n))))) ns NegInfinity;
             maxY = fold (\<lambda>n m. math_max m
                            (add_number (snd (ln_position n))
                               (to_number (snd (getNodeSize parseFloat n))))) ns NegInfinity
         in times_number (math_max (Finite 1) (minus_number maxX minX))
              (math_max (Finite 1) (minus_number maxY minY))))"

record layout_options =
  direction :: string
  ranksep :: real
  nodesep :: real
  marginx :: real
  marginy :: real

record layout_result =
  lr_nodes :: "layout_node list"
  lr_edges :: "layout_edge list"
  lr_direction :: string
  lr_area :: number

text \<open>
  The placement routine \<open>dagre.layout\<close> is a library outside the program. It enters as
  \<open>place\<close>: from the graph options, the nodes set on the graph (identifier, width, height,
  in the order of \<open>setNode\<close>) and its edges (source, target) to the centre that
  \<open>graph.node(id)\<close> holds afterwards.
\<close>

type_synonym placement =
  "layout_options \<Rightarrow> (string \<times> number option \<times> number option) list \<Rightarrow>
   (string \<times> string) list \<Rightarrow> string \<Rightarrow> number \<times> number"

text \<open>The \<open>nodes.map\<close> that follows \<open>dagre.layout\<close>: from centres to top-left corners.\<close>

definition layoutedNodes ::
  "(string \<Rightarrow> number) \<Rightarrow> layout_node list \<Rightarrow> bool \<Rightarrow> (string \<Rightarrow> number \<times> number) \<Rightarrow>
   layout_node list"
where
  "layoutedNodes parseFloat ns horizontal graph =
     map (\<lambda>n.
           (let position = graph (ln_id n); size = getNodeSize parseFloat n
            in n\<lparr>ln_sourcePosition := Some (if horizontal then ''right'' else ''bottom''),
                 ln_targetPosition := Some (if horizontal then ''left'' else ''top''),
                 ln_width := map_option JNumber (fst size),
                 ln_height := map_option JNumber (snd size),
                 ln_position :=
                   (minus_number (fst position) (half_number (to_number (fst size))),
                    minus_number (snd position) (half_number (to_number (snd size))))\<rparr>)) ns"

definition markedEdges :: "layout_edge list \<Rightarrow> layout_edge list" where
  "markedEdges es =
     map (\<lambda>e. e\<lparr>le_markerEnd :=
            Some \<lparr>m_type = ''arrowclosed'', m_color = ''var(--edge-color)''\<rparr>\<rparr>) es"

definition runDagreLayout ::
  "(string \<Rightarrow> number) \<Rightarrow> placement \<Rightarrow> layout_node list \<Rightarrow> layout_edge list \<Rightarrow>
   layout_options \<Rightarrow> layout_result"
where
  "runDagreLayout parseFloat place ns es options =
     (let graph = place options
            (map (\<lambda>n. (ln_id n, getNodeSize parseFloat n)) ns)
            (map (\<lambda>e. (le_source e, le_target e)) es);
          horizontal = (direction options = ''LR'');
          nextNodes = normalizePositions (layoutedNodes parseFloat ns horizontal graph)
                        (Finite 20);
          nextEdges = markedEdges es
      in \<lparr>lr_nodes = nextNodes, lr_edges = nextEdges, lr_direction = direction options,
          lr_area = getBoundingArea parseFloat nextNodes\<rparr>)"



definition compactOptions :: "string \<Rightarrow> layout_options" where
  "compactOptions candidateDirection =
     \<lparr>direction = candidateDirection, ranksep = 45, nodesep = 30, marginx = 20, marginy = 20\<rparr>"



section \<open>Example inputs\<close>

definition ex_node :: "string \<Rightarrow> string \<Rightarrow> raw_node" where
  "ex_node i t =
     \<lparr>rn_id = i, rn_label = ''Step'', rn_type = t, rn_details = None, rn_notes = None\<rparr>"

definition ex_doc :: "raw_node list \<Rightarrow> raw_edge list \<Rightarrow> raw_palette option \<Rightarrow> raw_flowchart" where
  "ex_doc ns es p =
     \<lparr>rf_title = ''Order flow'', rf_summary = ''How an order is handled.'',
      rf_rationale = ''Three steps in a row.'', rf_suggestions = None,
      rf_nodes = ns, rf_edges = es, rf_palette = p\<rparr>"

definition ex_bad_palette :: raw_palette where
  "ex_bad_palette = (as_candidate DEFAULT_PALETTE)\<lparr>rp_accent := Some ''not-a-color''\<rparr>"

definition ex_current :: raw_refine_input where
  "ex_current =
     \<lparr>ri_title = Some ''Order flow'', ri_summary = Some ''How an order is handled.'',
      ri_rationale = None, ri_suggestions = None,
      ri_nodes = [ex_node ''a'' ''start'', ex_node ''b'' ''end''],
      ri_edges = [], ri_palette = None, ri_sourcePrompt = None\<rparr>"

text \<open>
  Layout examples. \<open>ex_place\<close> stands for a placement: it stacks the nodes in the order
  given, along the vertical axis when the direction is top-to-bottom and along the
  horizontal axis when it is left-to-right, with the rank separation plus the node
  separation for every edge between two nodes, and moves the \<open>i\<close>-th node by \<open>i\<close> margins
  across.
\<close>

definition ex_parseFloat :: "string \<Rightarrow> number" where
  "ex_parseFloat s =
     (case map_of [(''280'', Finite 280), (''90'', Finite 90)] s of
        Some n \<Rightarrow> n
      | None \<Rightarrow> NaN)"

fun ex_stack ::
  "bool \<Rightarrow> number \<Rightarrow> real \<Rightarrow> real \<Rightarrow> number \<Rightarrow>
   (string \<times> number option \<times> number option) list \<Rightarrow> string \<Rightarrow> number \<times> number"
where
  "ex_stack horizontal step margin i off [] j = (NaN, NaN)"
| "ex_stack horizontal step margin i off ((name, w, h) # rest) j =
     (let along = to_number (if horizontal then w else h);
          across = to_number (if horizontal then h else w);
          c_along = add_number off (times_number along (Finite (1 / 2)));
          c_across = add_number (Finite (margin * i)) (times_number across (Finite (1 / 2)))
      in if name = j
         then (if horizontal then (c_along, c_across) else (c_across, c_along))
         else ex_stack horizontal step margin (i + 1)
                (add_number (add_number off along) step) rest j)"

definition ex_place :: placement where
  "ex_place options sized links j =
     (if direction options = ''LR''
      then ex_stack True (Finite (ranksep options + nodesep options * real (length links)))
             (marginy options) 0 (Finite (marginx options)) sized j
      else ex_stack False (Finite (ranksep options + nodesep options * real (length links)))
             (marginx options) 0 (Finite (marginy options)) sized j)"

definition ex_sized_node :: "string \<Rightarrow> real \<Rightarrow> real \<Rightarrow> layout_node" where
  "ex_sized_node i w h =
     \<lparr>ln_id = i, ln_kind = Some ''process'',
      ln_data_size = Some \<lparr>sz_width = Some (JNumber (Finite w)),
                           sz_height = Some (JNumber (Finite h))\<rparr>,
      ln_width = None, ln_height = None, ln_style = None, ln_sourcePosition = None,
      ln_targetPosition = None, ln_position = (Finite 0, Finite 0)\<rparr>"

definition ex_node_a :: layout_node where
  "ex_node_a =
     \<lparr>ln_id = ''a'', ln_kind = Some ''decision'',
      ln_data_size = Some \<lparr>sz_width = Some (JNumber (Finite 300)),
                           sz_height = Some (JString ''280px'')\<rparr>,
      ln_width = Some (JNumber (Finite 999)), ln_height = None, ln_style = None,
      ln_sourcePosition = None, ln_targetPosition = None,
      ln_position = (Finite 7, Finite 7)\<rparr>"

definition ex_node_b :: layout_node where
  "ex_node_b =
     \<lparr>ln_id = ''b'', ln_kind = None, ln_data_size = None,
      ln_width = Some (JNumber PosInfinity), ln_height = None,
      ln_style = Some \<lparr>sz_width = Some (JString ''999''), sz_height = Some (JString ''90px'')\<rparr>,
      ln_sourcePosition = None, ln_targetPosition = None,
      ln_position = (Finite 7, Finite 7)\<rparr>"

definition ex_layout_edge :: layout_edge where
  "ex_layout_edge = \<lparr>le_id = ''e1'', le_source = ''a'', le_target = ''b'', le_markerEnd = None\<rparr>"

definition ex_inherited_node :: layout_node where
  "ex_inherited_node =
     \<lparr>ln_id = ''c'', ln_kind = Some ''constructor'', ln_data_size = None, ln_width = None,
      ln_height = None, ln_style = None, ln_sourcePosition = None, ln_targetPosition = None,
      ln_position = (Finite 0, Finite 0)\<rparr>"

section \<open>Properties of the repair\<close>

lemma assignIds_length [simp]: "length (fst (assignIds i u m ns)) = length ns"
  by (induction ns arbitrary: i u m) (simp_all add: Let_def)

lemma assignIds_label [simp]: "map n_label (fst (assignIds i u m ns)) = map n_label ns"
  by (induction ns arbitrary: i u m) (simp_all add: Let_def)

lemma assignIds_type [simp]: "map n_type (fst (assignIds i u m ns)) = map n_type ns"
  by (induction ns arbitrary: i u m) (simp_all add: Let_def)

lemma assignIds_details [simp]: "map n_details (fst (assignIds i u m ns)) = map n_details ns"
  by (induction ns arbitrary: i u m) (simp_all add: Let_def)

lemma assignIds_notes [simp]: "map n_notes (fst (assignIds i u m ns)) = map n_notes ns"
  by (induction ns arbitrary: i u m) (simp_all add: Let_def)

lemma forceStart_length [simp]: "length (forceStart ns) = length ns"
  by (simp add: forceStart_def)

lemma forceEnd_length [simp]: "length (forceEnd ns) = length ns"
  by (simp add: forceEnd_def)

lemma map_update_same: "f y = f (xs ! i) \<Longrightarrow> map f (xs[i := y]) = map f xs"
  by (induction xs arbitrary: i) (auto split: nat.splits)

lemma forceStart_fields [simp]:
  "map n_id (forceStart ns) = map n_id ns"
  "map n_label (forceStart ns) = map n_label ns"
  "map n_details (forceStart ns) = map n_details ns"
  "map n_notes (forceStart ns) = map n_notes ns"
  by (simp_all add: forceStart_def map_update_same)

lemma forceEnd_fields [simp]:
  "map n_id (forceEnd ns) = map n_id ns"
  "map n_label (forceEnd ns) = map n_label ns"
  "map n_details (forceEnd ns) = map n_details ns"
  "map n_notes (forceEnd ns) = map n_notes ns"
  by (simp_all add: forceEnd_def map_update_same)

lemma forceStart_type:
  "k < length ns \<Longrightarrow>
     n_type (forceStart ns ! k) = n_type (ns ! k) \<or>
     k = 0 \<and> n_type (forceStart ns ! k) = ''start''"
  by (cases k) (auto simp: forceStart_def)

lemma forceEnd_type:
  "k < length ns \<Longrightarrow>
     n_type (forceEnd ns ! k) = n_type (ns ! k) \<or>
     k = length ns - 1 \<and> n_type (forceEnd ns ! k) = ''end''"
  by (simp add: forceEnd_def nth_list_update)

lemma parse_all_length: "parse_all f xs = Some ys \<Longrightarrow> length ys = length xs"
  by (induction xs arbitrary: ys) (auto split: option.splits)

lemma parse_all_nth:
  "parse_all f xs = Some ys \<Longrightarrow> k < length xs \<Longrightarrow> f (xs ! k) = Some (ys ! k)"
proof (induction xs arbitrary: ys k)
  case Nil
  then show ?case by simp
next
  case (Cons x xs)
  then show ?case by (cases k) (auto split: option.splits)
qed

lemma nodeSchema_fields:
  "nodeSchema r = Some n \<Longrightarrow>
     n_label n = rn_label r \<and> n_type n = rn_type r \<and>
     n_details n = (case rn_details r of None \<Rightarrow> [] | Some d \<Rightarrow> d) \<and>
     n_notes n = (case rn_notes r of None \<Rightarrow> [] | Some t \<Rightarrow> t)"
  by (auto simp: nodeSchema_def optString_def split: if_splits option.splits)

lemma flowchartSchema_nodes:
  "flowchartSchema r = Some parsed \<Longrightarrow>
     parse_all nodeSchema (rf_nodes r) = Some (pf_nodes parsed) \<and>
     2 \<le> length (rf_nodes r) \<and> length (rf_nodes r) \<le> 35"
  by (auto simp: flowchartSchema_def nodesSchema_def split: if_splits option.splits)

lemma normalizeFlowchart_nodes:
  "flowchartSchema r = Some parsed \<Longrightarrow> normalizeFlowchart r prompt fb = Inr doc \<Longrightarrow>
     nodes doc = forceEnd (forceStart (renamedNodes parsed))"
  by (auto simp: normalizeFlowchart_def Let_def)

lemma normalizeFlowchart_accepts:
  "normalizeFlowchart r prompt fb = Inr doc \<Longrightarrow> \<exists>parsed. flowchartSchema r = Some parsed"
  by (auto simp: normalizeFlowchart_def split: option.splits)

text \<open>
  C10. The repair keeps the node list in length and order, and every node keeps its label,
  details and notes (an absent \<open>details\<close> or \<open>notes\<close> is the empty string, as the schema
  fills it in). Only the identifier can change, and the type at the first and the last
  position: a type is the one of the input, or \<open>start\<close> at the first position, or \<open>end\<close> at
  the last.
\<close>

theorem repair_frame_nodes:
  assumes "normalizeFlowchart rawFlowchart prompt fallbackPalette = Inr doc"
  shows "length (nodes doc) = length (rf_nodes rawFlowchart) \<and>
         (\<forall>k < length (rf_nodes rawFlowchart).
            n_label (nodes doc ! k) = rn_label (rf_nodes rawFlowchart ! k) \<and>
            n_details (nodes doc ! k) =
              (case rn_details (rf_nodes rawFlowchart ! k) of None \<Rightarrow> [] | Some d \<Rightarrow> d) \<and>
            n_notes (nodes doc ! k) =
              (case rn_notes (rf_nodes rawFlowchart ! k) of None \<Rightarrow> [] | Some t \<Rightarrow> t) \<and>
            (n_type (nodes doc ! k) = rn_type (rf_nodes rawFlowchart ! k) \<or>
             k = 0 \<and> n_type (nodes doc ! k) = ''start'' \<or>
             k = length (rf_nodes rawFlowchart) - 1 \<and> n_type (nodes doc ! k) = ''end''))"
proof -
  from assms obtain parsed where p: "flowchartSchema rawFlowchart = Some parsed"
    using normalizeFlowchart_accepts by blast
  have pa: "parse_all nodeSchema (rf_nodes rawFlowchart) = Some (pf_nodes parsed)"
    using flowchartSchema_nodes [OF p] by simp
  have len: "length (pf_nodes parsed) = length (rf_nodes rawFlowchart)"
    using parse_all_length [OF pa] .
  have nd: "nodes doc = forceEnd (forceStart (renamedNodes parsed))"
    using normalizeFlowchart_nodes [OF p assms] .
  have l1: "length (nodes doc) = length (rf_nodes rawFlowchart)"
    by (simp add: nd renamedNodes_def len)
  have ml: "map n_label (nodes doc) = map n_label (pf_nodes parsed)"
    and md: "map n_details (nodes doc) = map n_details (pf_nodes parsed)"
    and mn: "map n_notes (nodes doc) = map n_notes (pf_nodes parsed)"
    by (simp_all add: nd renamedNodes_def)
  have mt: "map n_type (renamedNodes parsed) = map n_type (pf_nodes parsed)"
    by (simp add: renamedNodes_def)
  have lr: "length (renamedNodes parsed) = length (rf_nodes rawFlowchart)"
    by (simp add: renamedNodes_def len)
  {
    fix k assume k: "k < length (rf_nodes rawFlowchart)"
    have s: "nodeSchema (rf_nodes rawFlowchart ! k) = Some (pf_nodes parsed ! k)"
      using parse_all_nth [OF pa k] .
    note f = nodeSchema_fields [OF s]
    have a: "n_label (nodes doc ! k) = n_label (pf_nodes parsed ! k)"
      using arg_cong [OF ml, of "\<lambda>xs. xs ! k"] k l1 len by simp
    have b: "n_details (nodes doc ! k) = n_details (pf_nodes parsed ! k)"
      using arg_cong [OF md, of "\<lambda>xs. xs ! k"] k l1 len by simp
    have c: "n_notes (nodes doc ! k) = n_notes (pf_nodes parsed ! k)"
      using arg_cong [OF mn, of "\<lambda>xs. xs ! k"] k l1 len by simp
    have r: "n_type (renamedNodes parsed ! k) = n_type (pf_nodes parsed ! k)"
      using arg_cong [OF mt, of "\<lambda>xs. xs ! k"] k lr len by simp
    have "n_type (nodes doc ! k) = n_type (forceStart (renamedNodes parsed) ! k) \<or>
          k = length (rf_nodes rawFlowchart) - 1 \<and> n_type (nodes doc ! k) = ''end''"
      unfolding nd using forceEnd_type [of k "forceStart (renamedNodes parsed)"] k lr by simp
    moreover
    have "n_type (forceStart (renamedNodes parsed) ! k) = n_type (renamedNodes parsed ! k) \<or>
          k = 0 \<and> n_type (forceStart (renamedNodes parsed) ! k) = ''start''"
      using forceStart_type [of k "renamedNodes parsed"] k lr by simp
    ultimately
    have d: "n_type (nodes doc ! k) = n_type (pf_nodes parsed ! k) \<or>
             k = 0 \<and> n_type (nodes doc ! k) = ''start'' \<or>
             k = length (rf_nodes rawFlowchart) - 1 \<and> n_type (nodes doc ! k) = ''end''"
      using r by auto
    have "n_label (nodes doc ! k) = rn_label (rf_nodes rawFlowchart ! k) \<and>
            n_details (nodes doc ! k) =
              (case rn_details (rf_nodes rawFlowchart ! k) of None \<Rightarrow> [] | Some d \<Rightarrow> d) \<and>
            n_notes (nodes doc ! k) =
              (case rn_notes (rf_nodes rawFlowchart ! k) of None \<Rightarrow> [] | Some t \<Rightarrow> t) \<and>
            (n_type (nodes doc ! k) = rn_type (rf_nodes rawFlowchart ! k) \<or>
             k = 0 \<and> n_type (nodes doc ! k) = ''start'' \<or>
             k = length (rf_nodes rawFlowchart) - 1 \<and> n_type (nodes doc ! k) = ''end'')"
      using a b c d f by simp
  }
  with l1 show ?thesis by blast
qed

lemma chainEdges_length: "length (chainEdges ns) = length ns - 1"
  by (simp add: chainEdges_def)

lemma chainEdges_nth:
  "i < length ns - 1 \<Longrightarrow> chainEdges ns ! i = chainEdge ns i"
  by (simp add: chainEdges_def)

text \<open>
  C5. When no edge is left after remapping and dropping, the repair of a document that the
  schema accepts succeeds and returns \<open>n - 1\<close> edges over its \<open>n\<close> nodes: the \<open>i\<close>-th edge
  leads from node \<open>i\<close> to node \<open>i + 1\<close> of the document, with an empty label and condition.
  For the nodes \<open>a\<close>, \<open>b\<close>, \<open>c\<close> these are \<open>a \<rightarrow> b\<close> and \<open>b \<rightarrow> c\<close>, in this order.
\<close>

theorem connectivity_fallback_chain:
  assumes "flowchartSchema rawFlowchart = Some parsed"
    and "keptEdges parsed = []"
  shows "\<exists>doc. normalizeFlowchart rawFlowchart prompt fallbackPalette = Inr doc \<and>
           length (nodes doc) = length (rf_nodes rawFlowchart) \<and>
           length (edges doc) = length (rf_nodes rawFlowchart) - 1 \<and>
           (\<forall>i < length (rf_nodes rawFlowchart) - 1.
              e_source (edges doc ! i) = n_id (nodes doc ! i) \<and>
              e_target (edges doc ! i) = n_id (nodes doc ! (i + 1)) \<and>
              e_id (edges doc ! i) =
                ''edge-'' @ n_id (nodes doc ! i) @ ''-'' @ n_id (nodes doc ! (i + 1)) @ ''-''
                  @ string_of_nat (i + 1) \<and>
              e_label (edges doc ! i) = [] \<and> e_condition (edges doc ! i) = [])"
proof -
  obtain doc where d: "normalizeFlowchart rawFlowchart prompt fallbackPalette = Inr doc"
    using assms(1) by (simp add: normalizeFlowchart_def Let_def)
  have nd: "nodes doc = forceEnd (forceStart (renamedNodes parsed))"
    using normalizeFlowchart_nodes [OF assms(1) d] .
  have ed: "edges doc = chainEdges (nodes doc)"
    using d assms by (auto simp: normalizeFlowchart_def Let_def)
  have pa: "parse_all nodeSchema (rf_nodes rawFlowchart) = Some (pf_nodes parsed)"
    using flowchartSchema_nodes [OF assms(1)] by simp
  have len: "length (nodes doc) = length (rf_nodes rawFlowchart)"
    using parse_all_length [OF pa] by (simp add: nd renamedNodes_def)
  have "length (edges doc) = length (rf_nodes rawFlowchart) - 1"
    by (simp add: ed chainEdges_length len)
  moreover have "\<forall>i < length (rf_nodes rawFlowchart) - 1.
              e_source (edges doc ! i) = n_id (nodes doc ! i) \<and>
              e_target (edges doc ! i) = n_id (nodes doc ! (i + 1)) \<and>
              e_id (edges doc ! i) =
                ''edge-'' @ n_id (nodes doc ! i) @ ''-'' @ n_id (nodes doc ! (i + 1)) @ ''-''
                  @ string_of_nat (i + 1) \<and>
              e_label (edges doc ! i) = [] \<and> e_condition (edges doc ! i) = []"
    using len by (simp add: ed chainEdges_nth chainEdge_def)
  ultimately show ?thesis using d len by blast
qed

theorem repair_frame_nodes_witness:
  "\<exists>doc. normalizeFlowchart
            (ex_doc [ex_node ''Pay Now!'' ''process'', ex_node ''pay now'' ''decision'',
                     ex_node ''ship'' ''process''] [] None) ''order'' None = Inr doc \<and>
         length (nodes doc) = 3 \<and>
         (\<forall>k < 3. n_label (nodes doc ! k) = ''Step'' \<and> n_details (nodes doc ! k) = [] \<and>
                   n_notes (nodes doc ! k) = []) \<and>
         n_type (nodes doc ! 1) = ''decision''"
proof -
  let ?raw = "ex_doc [ex_node ''Pay Now!'' ''process'', ex_node ''pay now'' ''decision'',
                      ex_node ''ship'' ''process''] [] None"
  have "\<not> isl (normalizeFlowchart ?raw ''order'' None)"
    by code_simp
  then obtain doc where d: "normalizeFlowchart ?raw ''order'' None = Inr doc"
    by (cases "normalizeFlowchart ?raw ''order'' None") auto
  have n: "rf_nodes ?raw = [ex_node ''Pay Now!'' ''process'', ex_node ''pay now'' ''decision'',
                      ex_node ''ship'' ''process'']"
    by (simp add: ex_doc_def)
  from repair_frame_nodes [OF d] show ?thesis
    unfolding n using d by (auto simp: ex_node_def less_Suc_eq numeral_3_eq_3)
qed

theorem connectivity_fallback_chain_witness:
  "(\<exists>parsed. flowchartSchema
       (ex_doc [ex_node ''a'' ''start'', ex_node ''b'' ''process'', ex_node ''c'' ''end''] [] None)
         = Some parsed \<and> keptEdges parsed = []) \<and>
   (\<exists>doc. normalizeFlowchart
       (ex_doc [ex_node ''a'' ''start'', ex_node ''b'' ''process'', ex_node ''c'' ''end''] [] None)
       ''order'' None = Inr doc \<and>
      map n_id (nodes doc) = [''a'', ''b'', ''c''] \<and>
      length (edges doc) = 2 \<and>
      map (\<lambda>e. (e_source e, e_target e)) (edges doc) = [(''a'', ''b''), (''b'', ''c'')])"
proof -
  let ?raw = "ex_doc [ex_node ''a'' ''start'', ex_node ''b'' ''process'', ex_node ''c'' ''end''] [] None"
  have "case flowchartSchema ?raw of None \<Rightarrow> False | Some parsed \<Rightarrow> keptEdges parsed = []"
    by code_simp
  then obtain parsed where p: "flowchartSchema ?raw = Some parsed" and k: "keptEdges parsed = []"
    by (auto split: option.splits)
  have n: "length (rf_nodes ?raw) = 3"
    by (simp add: ex_doc_def)
  from connectivity_fallback_chain [OF p k, of "''order''" None]
  obtain doc where d: "normalizeFlowchart ?raw ''order'' None = Inr doc"
    and l: "length (edges doc) = 2"
    unfolding n by auto
  have e: "map_sum id (\<lambda>doc. (map n_id (nodes doc), map (\<lambda>e. (e_source e, e_target e)) (edges doc)))
          (normalizeFlowchart ?raw ''order'' None)
        = Inr ([''a'', ''b'', ''c''], [(''a'', ''b''), (''b'', ''c'')])"
    by code_simp
  show ?thesis using p k d l e by auto
qed

text \<open>
  C1. The claim (the identifiers of a repaired document are pairwise distinct) fails on the
  code: the suffixed candidate is recorded without a second look at \<open>usedIds\<close>. For the
  identifiers \<open>a-3\<close>, \<open>a\<close>, \<open>a\<close> the third node collides with the second, gets the suffix of
  its position and becomes \<open>a-3\<close>, the identifier of the first.
\<close>

theorem repaired_ids_collide:
  "(case normalizeFlowchart
           (ex_doc [ex_node ''a-3'' ''start'', ex_node ''a'' ''process'', ex_node ''a'' ''end'']
              [] None) ''order'' None of
      Inl e \<Rightarrow> False
    | Inr doc \<Rightarrow>
        map n_id (nodes doc) = [''a-3'', ''a'', ''a-3''] \<and> \<not> distinct (map n_id (nodes doc)))"
  by code_simp

text \<open>
  C2. The claim (every repaired document has a \<open>start\<close> node and an \<open>end\<close> node) fails on the
  code: when the last node is the only \<open>start\<close> node and there is no \<open>end\<close> node, forcing the
  last node to \<open>end\<close> removes the only \<open>start\<close>, after the check for one has passed.
\<close>

theorem repaired_document_without_start:
  "(case normalizeFlowchart
           (ex_doc [ex_node ''a'' ''process'', ex_node ''b'' ''start''] [] None) ''order'' None of
      Inl e \<Rightarrow> False
    | Inr doc \<Rightarrow>
        map n_type (nodes doc) = [''process'', ''end''] \<and>
        \<not> list_ex (\<lambda>n. n_type n = ''start'') (nodes doc))"
  by code_simp

section \<open>Properties of the palette\<close>

lemma paletteSchema_default: "paletteSchema (as_candidate DEFAULT_PALETTE) = Some DEFAULT_PALETTE"
  by code_simp

lemma colorField_fails: "\<not> HEX_COLOR_REGEX s \<Longrightarrow> colorField d (Some s) = None"
  by (simp add: colorField_def)

lemma nodeColorsSchema_fails:
  assumes "Some s \<in> {rc_start c, rc_process c, rc_decision c, rc_data c, rc_subprocess c,
                      rc_end c, rc_actor c, rc_document c}"
    and "\<not> HEX_COLOR_REGEX s"
  shows "nodeColorsSchema c = None"
proof -
  from assms(1) consider
      "rc_start c = Some s" | "rc_process c = Some s" | "rc_decision c = Some s"
    | "rc_data c = Some s" | "rc_subprocess c = Some s" | "rc_end c = Some s"
    | "rc_actor c = Some s" | "rc_document c = Some s"
    by auto
  then show ?thesis
    by cases
      (simp_all add: nodeColorsSchema_def colorField_fails [OF assms(2)] split: option.split)
qed

text \<open>One failing colour field makes the schema refuse the whole candidate.\<close>

lemma paletteSchema_fails:
  assumes "Some s \<in> {rp_canvas r, rp_panel r, rp_text r, rp_mutedText r, rp_edge r, rp_accent r}
             \<or> (\<exists>c. rp_nodeColors r = Some c \<and>
                   Some s \<in> {rc_start c, rc_process c, rc_decision c, rc_data c,
                              rc_subprocess c, rc_end c, rc_actor c, rc_document c})"
    and "\<not> HEX_COLOR_REGEX s"
  shows "paletteSchema r = None"
proof -
  from assms(1) consider
      "rp_canvas r = Some s" | "rp_panel r = Some s" | "rp_text r = Some s"
    | "rp_mutedText r = Some s" | "rp_edge r = Some s" | "rp_accent r = Some s"
    | c where "rp_nodeColors r = Some c"
        "Some s \<in> {rc_start c, rc_process c, rc_decision c, rc_data c,
                    rc_subprocess c, rc_end c, rc_actor c, rc_document c}"
    by auto
  then show ?thesis
  proof cases
    case 7
    then show ?thesis
      by (simp add: paletteSchema_def nodeColorsSchema_fails [OF 7(2) assms(2)]
            split: option.split)
  qed (simp_all add: paletteSchema_def colorField_fails [OF assms(2)] split: option.split)
qed

text \<open>
  C3. Palette normalization is all-or-nothing. A candidate with a colour field that fails
  the pattern is dropped as a whole and the result is exactly the default palette,
  whether the candidate is the palette argument or stands in for an absent one. In
  particular the default palette with \<open>accent\<close> set to \<open>not-a-color\<close> normalizes to the
  default palette.
\<close>

theorem palette_all_or_nothing:
  assumes "Some s \<in> set (colorFields candidate)"
    and "\<not> HEX_COLOR_REGEX s"
  shows "normalizePalette (Some candidate) fallbackPalette = DEFAULT_PALETTE \<and>
         normalizePalette None (Some candidate) = DEFAULT_PALETTE"
proof -
  have "Some s \<in> {rp_canvas candidate, rp_panel candidate, rp_text candidate,
                   rp_mutedText candidate, rp_edge candidate, rp_accent candidate}
          \<or> (\<exists>c. rp_nodeColors candidate = Some c \<and>
                Some s \<in> {rc_start c, rc_process c, rc_decision c, rc_data c,
                           rc_subprocess c, rc_end c, rc_actor c, rc_document c})"
  proof (cases "rp_nodeColors candidate")
    case None
    with assms(1) show ?thesis by (simp add: colorFields_def)
  next
    case (Some c)
    with assms(1) show ?thesis by (simp add: colorFields_def)
  qed
  then have "paletteSchema candidate = None"
    using assms(2) by (rule paletteSchema_fails)
  then show ?thesis
    by (simp add: normalizePalette_def paletteSchema_default)
qed

theorem palette_all_or_nothing_witness:
  "Some ''not-a-color'' \<in> set (colorFields ex_bad_palette) \<and>
   \<not> HEX_COLOR_REGEX ''not-a-color'' \<and>
   rp_accent ex_bad_palette = Some ''not-a-color'' \<and>
   ex_bad_palette\<lparr>rp_accent := Some (p_accent DEFAULT_PALETTE)\<rparr> = as_candidate DEFAULT_PALETTE \<and>
   normalizePalette (Some ex_bad_palette) (Some (as_candidate clinical_palette))
     = DEFAULT_PALETTE \<and>
   normalizePalette None (Some ex_bad_palette) = DEFAULT_PALETTE"
proof -
  have a: "Some ''not-a-color'' \<in> set (colorFields ex_bad_palette)"
    by (simp add: colorFields_def ex_bad_palette_def)
  have b: "\<not> HEX_COLOR_REGEX ''not-a-color''"
    by (simp add: HEX_COLOR_REGEX_def)
  have c: "rp_accent ex_bad_palette = Some ''not-a-color''"
    by (simp add: ex_bad_palette_def)
  have d: "ex_bad_palette\<lparr>rp_accent := Some (p_accent DEFAULT_PALETTE)\<rparr>
             = as_candidate DEFAULT_PALETTE"
    by (simp add: ex_bad_palette_def as_candidate_def)
  from palette_all_or_nothing [OF a b, of "Some (as_candidate clinical_palette)"] a b c d
  show ?thesis by simp
qed

lemma colorField_valid:
  "colorField d v = Some s \<Longrightarrow> HEX_COLOR_REGEX d \<Longrightarrow> colorField d' (Some s) = Some s"
  by (auto simp: colorField_def split: option.splits if_splits)

lemma nameField_valid:
  "nameField d v = Some s \<Longrightarrow> 2 \<le> length d \<and> length d \<le> 80 \<Longrightarrow> nameField d' (Some s) = Some s"
  by (auto simp: nameField_def split: option.splits if_splits)

lemma default_fields_valid:
  "2 \<le> length (p_name DEFAULT_PALETTE) \<and> length (p_name DEFAULT_PALETTE) \<le> 80"
  "HEX_COLOR_REGEX (p_canvas DEFAULT_PALETTE)"
  "HEX_COLOR_REGEX (p_panel DEFAULT_PALETTE)"
  "HEX_COLOR_REGEX (p_text DEFAULT_PALETTE)"
  "HEX_COLOR_REGEX (p_mutedText DEFAULT_PALETTE)"
  "HEX_COLOR_REGEX (p_edge DEFAULT_PALETTE)"
  "HEX_COLOR_REGEX (p_accent DEFAULT_PALETTE)"
  "HEX_COLOR_REGEX (c_start (p_nodeColors DEFAULT_PALETTE))"
  "HEX_COLOR_REGEX (c_process (p_nodeColors DEFAULT_PALETTE))"
  "HEX_COLOR_REGEX (c_decision (p_nodeColors DEFAULT_PALETTE))"
  "HEX_COLOR_REGEX (c_data (p_nodeColors DEFAULT_PALETTE))"
  "HEX_COLOR_REGEX (c_subprocess (p_nodeColors DEFAULT_PALETTE))"
  "HEX_COLOR_REGEX (c_end (p_nodeColors DEFAULT_PALETTE))"
  "HEX_COLOR_REGEX (c_actor (p_nodeColors DEFAULT_PALETTE))"
  "HEX_COLOR_REGEX (c_document (p_nodeColors DEFAULT_PALETTE))"
  by code_simp+

text \<open>A palette that the schema returned parses to itself.\<close>

lemma nodeColorsSchema_idem:
  assumes "nodeColorsSchema c = Some nc"
  shows "nodeColorsSchema
           \<lparr>rc_start = Some (c_start nc), rc_process = Some (c_process nc),
            rc_decision = Some (c_decision nc), rc_data = Some (c_data nc),
            rc_subprocess = Some (c_subprocess nc), rc_end = Some (c_end nc),
            rc_actor = Some (c_actor nc), rc_document = Some (c_document nc)\<rparr> = Some nc"
  using assms unfolding nodeColorsSchema_def
  by (auto split: option.splits
        simp: colorField_valid [OF _ default_fields_valid(8)]
              colorField_valid [OF _ default_fields_valid(9)]
              colorField_valid [OF _ default_fields_valid(10)]
              colorField_valid [OF _ default_fields_valid(11)]
              colorField_valid [OF _ default_fields_valid(12)]
              colorField_valid [OF _ default_fields_valid(13)]
              colorField_valid [OF _ default_fields_valid(14)]
              colorField_valid [OF _ default_fields_valid(15)])

lemma paletteSchema_idem:
  assumes "paletteSchema r = Some p"
  shows "paletteSchema (as_candidate p) = Some p"
  using assms unfolding paletteSchema_def as_candidate_def
  by (auto split: option.splits
        simp: nodeColorsSchema_idem
              nameField_valid [OF _ default_fields_valid(1)]
              colorField_valid [OF _ default_fields_valid(2)]
              colorField_valid [OF _ default_fields_valid(3)]
              colorField_valid [OF _ default_fields_valid(4)]
              colorField_valid [OF _ default_fields_valid(5)]
              colorField_valid [OF _ default_fields_valid(6)]
              colorField_valid [OF _ default_fields_valid(7)])

lemma normalizePalette_own:
  "paletteSchema r = Some p \<Longrightarrow> normalizePalette (Some (as_candidate p)) fb = p"
  by (simp add: normalizePalette_def paletteSchema_idem)

lemma flowchartSchema_palette:
  "flowchartSchema raw = Some parsed \<Longrightarrow>
     optPaletteSchema (rf_palette raw) = Some (pf_palette parsed)"
  by (auto simp: flowchartSchema_def split: if_splits option.splits)

lemma normalizeFlowchart_palette:
  "flowchartSchema raw = Some parsed \<Longrightarrow> normalizeFlowchart raw prompt fb = Inr doc \<Longrightarrow>
     palette doc = normalizePalette (map_option as_candidate (pf_palette parsed)) fb"
  by (auto simp: normalizeFlowchart_def Let_def)

text \<open>
  C4, as the claim states it, fails: a document whose own palette is present but fails
  validation, repaired with a valid \<open>fallbackPalette\<close>, yields no document with that
  palette. The schema refuses the whole document; and \<open>normalizePalette\<close> itself, given
  this candidate and the valid fallback, returns the default palette, not the fallback.
\<close>

theorem palette_fallback_chain_counterexample:
  "paletteSchema ex_bad_palette = None \<and>
   paletteSchema (as_candidate clinical_palette) = Some clinical_palette \<and>
   normalizeFlowchart
     (ex_doc [ex_node ''a'' ''start'', ex_node ''b'' ''end''] [] (Some ex_bad_palette))
     ''order'' (Some (as_candidate clinical_palette)) = Inl ZodError \<and>
   normalizePalette (Some ex_bad_palette) (Some (as_candidate clinical_palette))
     = DEFAULT_PALETTE \<and>
   DEFAULT_PALETTE \<noteq> clinical_palette"
  by code_simp

text \<open>
  C4, amended. The palette is chosen by presence, not by validity. For a candidate that is
  present but fails validation \<open>normalizePalette\<close> returns the default palette, whatever the
  \<open>fallbackPalette\<close>, and a document whose own palette is present but fails validation is
  refused by the schema. In a repaired document
  the palette is the document's own palette as the schema parsed it, when it has one;
  when it has none, it is the \<open>fallbackPalette\<close> as parsed if that passes the schema, and the
  default palette if the \<open>fallbackPalette\<close> is absent or fails.
\<close>

theorem palette_preference:
  "(\<forall>own. paletteSchema own = None \<longrightarrow>
       normalizePalette (Some own) fallbackPalette = DEFAULT_PALETTE) \<and>
   (\<forall>own. rf_palette rawFlowchart = Some own \<longrightarrow> paletteSchema own = None \<longrightarrow>
       normalizeFlowchart rawFlowchart prompt fallbackPalette = Inl ZodError) \<and>
   (\<forall>doc. normalizeFlowchart rawFlowchart prompt fallbackPalette = Inr doc \<longrightarrow>
       (case rf_palette rawFlowchart of
          Some own \<Rightarrow> paletteSchema own = Some (palette doc)
        | None \<Rightarrow>
            palette doc =
              (case fallbackPalette of
                 None \<Rightarrow> DEFAULT_PALETTE
               | Some f \<Rightarrow>
                   (case paletteSchema f of Some p \<Rightarrow> p | None \<Rightarrow> DEFAULT_PALETTE))))"
proof (intro conjI allI impI)
  fix own
  assume "paletteSchema own = None"
  then show "normalizePalette (Some own) fallbackPalette = DEFAULT_PALETTE"
    by (simp add: normalizePalette_def paletteSchema_default)
next
  fix own
  assume "rf_palette rawFlowchart = Some own" and "paletteSchema own = None"
  then have "flowchartSchema rawFlowchart = None"
    by (simp add: flowchartSchema_def optPaletteSchema_def split: option.split)
  then show "normalizeFlowchart rawFlowchart prompt fallbackPalette = Inl ZodError"
    by (simp add: normalizeFlowchart_def)
next
  fix doc
  assume d: "normalizeFlowchart rawFlowchart prompt fallbackPalette = Inr doc"
  then obtain parsed where p: "flowchartSchema rawFlowchart = Some parsed"
    using normalizeFlowchart_accepts by blast
  note o = flowchartSchema_palette [OF p]
  note n = normalizeFlowchart_palette [OF p d]
  show "case rf_palette rawFlowchart of
          Some own \<Rightarrow> paletteSchema own = Some (palette doc)
        | None \<Rightarrow>
            palette doc =
              (case fallbackPalette of
                 None \<Rightarrow> DEFAULT_PALETTE
               | Some f \<Rightarrow>
                   (case paletteSchema f of Some p \<Rightarrow> p | None \<Rightarrow> DEFAULT_PALETTE))"
  proof (cases "rf_palette rawFlowchart")
    case None
    with o have "pf_palette parsed = None"
      by (simp add: optPaletteSchema_def)
    with n None show ?thesis
      by (simp add: normalizePalette_def paletteSchema_default split: option.split)
  next
    case (Some own)
    with o obtain q where q: "paletteSchema own = Some q" and "pf_palette parsed = Some q"
      by (auto simp: optPaletteSchema_def split: option.splits)
    with n have "palette doc = q"
      by (simp add: normalizePalette_own)
    with Some q show ?thesis by simp
  qed
qed

theorem palette_preference_witness:
  "(\<exists>doc. normalizeFlowchart (ex_doc [ex_node ''a'' ''start'', ex_node ''b'' ''end''] [] None)
            ''order'' (Some (as_candidate clinical_palette)) = Inr doc \<and>
          palette doc = clinical_palette) \<and>
   (\<exists>doc. normalizeFlowchart (ex_doc [ex_node ''a'' ''start'', ex_node ''b'' ''end''] [] None)
            ''order'' (Some ex_bad_palette) = Inr doc \<and>
          palette doc = DEFAULT_PALETTE) \<and>
   normalizeFlowchart
     (ex_doc [ex_node ''a'' ''start'', ex_node ''b'' ''end''] [] (Some ex_bad_palette))
     ''order'' (Some (as_candidate clinical_palette)) = Inl ZodError \<and>
   normalizePalette (Some ex_bad_palette) (Some (as_candidate clinical_palette))
     = DEFAULT_PALETTE"
proof -
  let ?plain = "ex_doc [ex_node ''a'' ''start'', ex_node ''b'' ''end''] [] None"
  let ?bad = "ex_doc [ex_node ''a'' ''start'', ex_node ''b'' ''end''] [] (Some ex_bad_palette)"
  have np: "rf_palette ?plain = None" and bp: "rf_palette ?bad = Some ex_bad_palette"
    by (simp_all add: ex_doc_def)
  have c: "paletteSchema (as_candidate clinical_palette) = Some clinical_palette"
    and b: "paletteSchema ex_bad_palette = None"
    by code_simp+
  have "\<not> isl (normalizeFlowchart ?plain ''order'' (Some (as_candidate clinical_palette)))"
    by code_simp
  then obtain d1 where d1:
    "normalizeFlowchart ?plain ''order'' (Some (as_candidate clinical_palette)) = Inr d1"
    by (cases "normalizeFlowchart ?plain ''order'' (Some (as_candidate clinical_palette))") auto
  have "\<not> isl (normalizeFlowchart ?plain ''order'' (Some ex_bad_palette))"
    by code_simp
  then obtain d2 where d2: "normalizeFlowchart ?plain ''order'' (Some ex_bad_palette) = Inr d2"
    by (cases "normalizeFlowchart ?plain ''order'' (Some ex_bad_palette)") auto
  have "palette d1 = clinical_palette"
    using palette_preference [where rawFlowchart = ?plain and prompt = "''order''"
            and fallbackPalette = "Some (as_candidate clinical_palette)"] d1 np c
    by simp
  moreover have "palette d2 = DEFAULT_PALETTE"
    using palette_preference [where rawFlowchart = ?plain and prompt = "''order''"
            and fallbackPalette = "Some ex_bad_palette"] d2 np b
    by simp
  moreover have "normalizeFlowchart ?bad ''order'' (Some (as_candidate clinical_palette))
      = Inl ZodError"
    using palette_preference [where rawFlowchart = ?bad and prompt = "''order''"
            and fallbackPalette = "Some (as_candidate clinical_palette)"] bp b
    by simp
  moreover have "normalizePalette (Some ex_bad_palette) (Some (as_candidate clinical_palette))
      = DEFAULT_PALETTE"
    using palette_preference [where rawFlowchart = ?bad and prompt = "''order''"
            and fallbackPalette = "Some (as_candidate clinical_palette)"] b
    by blast
  ultimately show ?thesis using d1 d2 by blast
qed

section \<open>Properties of generation and refinement\<close>

lemma missing_key_message:
  "includes_str ''Missing GROQ_API_KEY in environment.'' ''Missing GROQ_API_KEY''"
  by simp

text \<open>
  C8. A missing credential is fatal for generation. When the key is absent or empty, or
  when the model step or the repair fails with a message that contains
  \<open>Missing GROQ_API_KEY\<close>, the call returns that error, and so never the fallback document.
\<close>

theorem missing_credential_fatal:
  assumes "apiKey = None \<or> apiKey = Some [] \<or>
           (\<exists>e. modelThenNormalize runModel prompt
                   (Some (as_candidate (pickPaletteFromPrompt prompt))) = Inl e \<and>
                 includes_str (errorMessage zodMessage e) ''Missing GROQ_API_KEY'')"
  shows "(\<exists>e. generateFlowchartFromPrompt apiKey zodMessage runModel prompt detailLevel audience
                = Inl e \<and>
              includes_str (errorMessage zodMessage e) ''Missing GROQ_API_KEY'') \<and>
         generateFlowchartFromPrompt apiKey zodMessage runModel prompt detailLevel audience
           \<noteq> Inr (fallbackFlowchart prompt detailLevel audience)"
proof -
  have "\<exists>e. generateFlowchartFromPrompt apiKey zodMessage runModel prompt detailLevel audience
                = Inl e \<and>
              includes_str (errorMessage zodMessage e) ''Missing GROQ_API_KEY''"
  proof (cases "getGroqClient apiKey")
    case (Inl e)
    then have "e = Error ''Missing GROQ_API_KEY in environment.''"
      by (auto simp: getGroqClient_def split: option.splits if_splits)
    with Inl show ?thesis
      using missing_key_message
      by (simp add: generateFlowchartFromPrompt_def errorMessage_def)
  next
    case (Inr groq)
    then have "apiKey \<noteq> None" and "apiKey \<noteq> Some []"
      by (auto simp: getGroqClient_def split: option.splits if_splits)
    with assms obtain e where
      "modelThenNormalize runModel prompt
         (Some (as_candidate (pickPaletteFromPrompt prompt))) = Inl e"
      and "includes_str (errorMessage zodMessage e) ''Missing GROQ_API_KEY''"
      by blast
    with Inr show ?thesis
      by (simp add: generateFlowchartFromPrompt_def Let_def)
  qed
  then show ?thesis by auto
qed

theorem missing_credential_fatal_witness:
  "generateFlowchartFromPrompt None ''[]''
       (Inr (Some (ex_doc [ex_node ''a'' ''start'', ex_node ''b'' ''end''] [] None)))
       ''Describe how an order is handled'' ''balanced'' []
     = Inl (Error ''Missing GROQ_API_KEY in environment.'') \<and>
   generateFlowchartFromPrompt (Some ''gsk-1'') ''[]''
       (Inl (Error ''401 Missing GROQ_API_KEY header''))
       ''Describe how an order is handled'' ''balanced'' []
     = Inl (Error ''401 Missing GROQ_API_KEY header'')"
proof -
  let ?p = "''Describe how an order is handled''"
  let ?ok = "Inr (Some (ex_doc [ex_node ''a'' ''start'', ex_node ''b'' ''end''] [] None))
               :: thrown + raw_flowchart option"
  let ?ko = "Inl (Error ''401 Missing GROQ_API_KEY header'') :: thrown + raw_flowchart option"
  have m: "includes_str ''401 Missing GROQ_API_KEY header'' ''Missing GROQ_API_KEY''"
    by simp
  have h: "modelThenNormalize ?ko ?p (Some (as_candidate (pickPaletteFromPrompt ?p)))
             = Inl (Error ''401 Missing GROQ_API_KEY header'') \<and>
           includes_str (errorMessage ''[]'' (Error ''401 Missing GROQ_API_KEY header''))
             ''Missing GROQ_API_KEY''"
    using m by (simp add: modelThenNormalize_def errorMessage_def)
  from missing_credential_fatal [of None ?ok ?p "''[]''" "''balanced''" "[]"]
  obtain e1 where e1: "generateFlowchartFromPrompt None ''[]'' ?ok ?p ''balanced'' [] = Inl e1"
    by auto
  then have "e1 = Error ''Missing GROQ_API_KEY in environment.''"
    by (simp add: generateFlowchartFromPrompt_def getGroqClient_def)
  moreover
  from missing_credential_fatal [of "Some ''gsk-1''" ?ko ?p "''[]''" "''balanced''" "[]"] h
  obtain e2 where e2:
    "generateFlowchartFromPrompt (Some ''gsk-1'') ''[]'' ?ko ?p ''balanced'' [] = Inl e2"
    by blast
  then have "e2 = Error ''401 Missing GROQ_API_KEY header''"
    using m
    by (simp add: generateFlowchartFromPrompt_def getGroqClient_def modelThenNormalize_def
          errorMessage_def Let_def)
  ultimately show ?thesis using e1 e2 by simp
qed

text \<open>
  C7, as the claim states it, fails: a refinement whose model step fails with another
  message than the missing credential succeeds, but what it returns is not the template of
  five nodes. It is the current document, repaired, with its two nodes and one edge.
\<close>

theorem refinement_fallback_counterexample:
  "(case refineFlowchartFromPrompt (Some ''gsk-1'') ''[]'' (Inl (Error ''timeout'')) ex_current
           ''add a review step'' of
      Inl e \<Rightarrow> False
    | Inr doc \<Rightarrow>
        map n_id (nodes doc) = [''a'', ''b''] \<and>
        map (\<lambda>e. (e_source e, e_target e)) (edges doc) = [(''a'', ''b'')] \<and>
        title doc = ''Order flow'' \<and>
        doc \<noteq> fallbackFlowchart ''add a review step'' ''balanced'' []) \<and>
   map n_id (nodes (fallbackFlowchart ''add a review step'' ''balanced'' []))
     = [''problem-definition'', ''requirements'', ''modeling'', ''review'', ''final-diagram'']"
  by code_simp

text \<open>
  C7, amended. For every refinement call whose current flowchart passes the input schema
  and the repair, with a credential present, in which the model step or the repair of its
  answer fails with a message that does not contain \<open>Missing GROQ_API_KEY\<close>, the call
  succeeds and returns the repaired current document (its title, palette, nodes, edges and
  source prompt unchanged) with the follow-up prompt appended to the summary, the
  rationale replaced by the note that the model refinement failed, and the first five
  suggestions followed by a fixed hint.
\<close>

theorem refinement_failure_absorbed:
  assumes "safeCurrent currentFlowchart = Inr current"
    and "apiKey = Some k" and "k \<noteq> []"
    and "modelThenNormalize runModel
           (if sourcePrompt current \<noteq> [] then sourcePrompt current else followUpPrompt)
           (Some (as_candidate (palette current))) = Inl e"
    and "\<not> includes_str (errorMessage zodMessage e) ''Missing GROQ_API_KEY''"
  shows "\<exists>doc. refineFlowchartFromPrompt apiKey zodMessage runModel currentFlowchart
                 followUpPrompt = Inr doc \<and>
               doc = refinedFallback current followUpPrompt \<and>
               title doc = title current \<and> palette doc = palette current \<and>
               nodes doc = nodes current \<and> edges doc = edges current \<and>
               sourcePrompt doc = sourcePrompt current \<and>
               summary doc = summary current @ '' Refinement applied: '' @ followUpPrompt \<and>
               rationale doc = ''Model refinement failed, so the system preserved the existing diagram with a traceable refinement note.'' \<and>
               suggestions doc = take 5 (suggestions current)
                 @ [''Try a shorter follow-up prompt with one change request at a time.'']"
  using assms
  by (simp add: refineFlowchartFromPrompt_def getGroqClient_def refinedFallback_def)

theorem refinement_failure_absorbed_witness:
  "\<exists>current. safeCurrent ex_current = Inr current \<and>
     modelThenNormalize (Inl (Error ''timeout''))
       (if sourcePrompt current \<noteq> [] then sourcePrompt current else ''add a review step'')
       (Some (as_candidate (palette current))) = Inl (Error ''timeout'') \<and>
     \<not> includes_str (errorMessage ''[]'' (Error ''timeout'')) ''Missing GROQ_API_KEY'' \<and>
     refineFlowchartFromPrompt (Some ''gsk-1'') ''[]'' (Inl (Error ''timeout'')) ex_current
       ''add a review step'' = Inr (refinedFallback current ''add a review step'') \<and>
     map n_id (nodes (refinedFallback current ''add a review step'')) = [''a'', ''b''] \<and>
     summary (refinedFallback current ''add a review step'')
       = ''How an order is handled. Refinement applied: add a review step''"
proof -
  have "\<not> isl (safeCurrent ex_current)"
    by code_simp
  then obtain current where c: "safeCurrent ex_current = Inr current"
    by (cases "safeCurrent ex_current") auto
  have v: "case safeCurrent ex_current of Inl e \<Rightarrow> False
           | Inr d \<Rightarrow> map n_id (nodes d) = [''a'', ''b''] \<and>
                      summary d = ''How an order is handled.''"
    by code_simp
  have m: "modelThenNormalize (Inl (Error ''timeout''))
       (if sourcePrompt current \<noteq> [] then sourcePrompt current else ''add a review step'')
       (Some (as_candidate (palette current))) = Inl (Error ''timeout'')"
    by (simp add: modelThenNormalize_def)
  have n: "\<not> includes_str (errorMessage ''[]'' (Error ''timeout'')) ''Missing GROQ_API_KEY''"
    by (simp add: errorMessage_def)
  have k: "''gsk-1'' \<noteq> []" by simp
  from refinement_failure_absorbed [OF c refl k m n]
  have "refineFlowchartFromPrompt (Some ''gsk-1'') ''[]'' (Inl (Error ''timeout'')) ex_current
       ''add a review step'' = Inr (refinedFallback current ''add a review step'')"
    and "nodes (refinedFallback current ''add a review step'') = nodes current"
    and "summary (refinedFallback current ''add a review step'')
           = summary current @ '' Refinement applied: '' @ ''add a review step''"
    by auto
  with c v m n show ?thesis by auto
qed

section \<open>Properties of the node sizes\<close>

lemma getNodeDimensions_node_type:
  "kind \<in> set NODE_TYPES \<Longrightarrow> \<exists>base. getNodeDimensions kind = Entry base"
  by (auto simp: NODE_TYPES_def getNodeDimensions_def NODE_DIMENSIONS_def)

text \<open>
  C9. For every node type and every label, details and notes, however long, the estimate
  is a pair of numbers with the width at most 420 and the height at most 560.
\<close>

theorem size_clamp:
  assumes "kind \<in> set NODE_TYPES"
  shows "\<exists>d. estimateNodeDimensions kind p = Some d \<and> width d \<le> 420 \<and> height d \<le> 560"
proof -
  from assms obtain base where "getNodeDimensions kind = Entry base"
    using getNodeDimensions_node_type by blast
  then show ?thesis
    by (simp add: estimateNodeDimensions_def Let_def)
qed

theorem size_clamp_witness:
  "''decision'' \<in> set NODE_TYPES \<and>
   estimateNodeDimensions ''decision''
     \<lparr>pl_label = Some ''Check'', pl_details = Some (replicate 5000 (CHR ''x'')),
      pl_notes = None\<rparr> = Some \<lparr>width = 420, height = 560\<rparr> \<and>
   (\<exists>d. estimateNodeDimensions ''decision''
     \<lparr>pl_label = Some ''Check'', pl_details = Some (replicate 5000 (CHR ''x'')),
      pl_notes = None\<rparr> = Some d \<and> width d \<le> 420 \<and> height d \<le> 560)"
proof -
  have k: "''decision'' \<in> set NODE_TYPES"
    by (simp add: NODE_TYPES_def)
  have e: "estimateNodeDimensions ''decision''
     \<lparr>pl_label = Some ''Check'', pl_details = Some (replicate 5000 (CHR ''x'')),
      pl_notes = None\<rparr> = Some \<lparr>width = 420, height = 560\<rparr>"
    by (simp add: estimateNodeDimensions_def getNodeDimensions_def NODE_DIMENSIONS_def
          text_of_def ceil_div_def Let_def)
  from size_clamp [OF k] k e show ?thesis by blast
qed

section \<open>Properties of the numbers\<close>






















text \<open>Rounding at work: a tie goes to the even significand, one tenth and one third are
  inexact, the values from \<open>2^1024 - 2^970\<close> on overflow, and half of the least positive
  number underflows to zero.\<close>

lemma round64_examples:
  "round64 9007199254740993 = Finite 9007199254740992"
  "round64 9007199254740995 = Finite 9007199254740996"
  "round64 (1 / 10) = Finite (3602879701896397 / 36028797018963968)"
  "round64 (- 1 / 3) = Finite (- 6004799503160661 / 18014398509481984)"
  "round64 (2 powi 1024 - 2 powi 970) = PosInfinity"
  "round64 (2 powi 1024 - 2 powi 970 - 1) = Finite (2 powi 1024 - 2 powi 971)"
  "round64 (2 powi (- 1075)) = Finite 0"
  "round64 (3 * 2 powi (- 1075)) = Finite (2 powi (- 1073))"
  by (simp_all add: round64_def binade_def binade_search.simps round_half_even_def Let_def)


section \<open>Properties of the layout\<close>









lemmas layout_eval =
  runDagreLayout_def compactOptions_def markedEdges_def
  layoutedNodes_def normalizePositions_def shift_node_def getBoundingArea_def getNodeSize_def
  toNumber_def coalesce_def getNodeDimensions_def NODE_DIMENSIONS_def OBJECT_PROTOTYPE_KEYS_def
  dims_width_def dims_height_def ex_place_def ex_parseFloat_def ex_node_a_def ex_node_b_def
  ex_sized_node_def ex_layout_edge_def ex_inherited_node_def

lemma ex_sizes:
  "map (getNodeSize ex_parseFloat) [ex_node_a, ex_node_b, ex_inherited_node]
     = [(Some (Finite 300), Some (Finite 280)), (Some (Finite 250), Some (Finite 90)),
        (None, None)]"
  by (simp add: layout_eval)









end
